theory Spec2Isabelle
  imports Main "HOL-Library.AList"
begin

section \<open>Single-file pipeline loading (\<^verbatim>\<open>src/diffusers/loaders/single_file.py\<close>)\<close>

text \<open>
  The module turns one checkpoint file into a pipeline object. Everything it does is
  dispatch: it pops keyword arguments, asks collaborators (the hub client, the checkpoint
  reader, the component classes' own loaders) for values, and decides from reflective
  facts about classes which collaborator to ask. The embedding keeps that shape:
  \<^item> Python values are \<open>pyval\<close>; a dictionary is an association list in insertion order;
  \<^item> an exception is the \<open>Inl\<close> of a result, a warning or an external call is an event
    of a trace, so a function of the source with effects returns a pair of its trace and
    its result (\<open>'a io\<close>);
  \<^item> the collaborators that live outside this file are fields of the record \<open>env\<close>.
\<close>

subsection \<open>Values, classes, errors, events\<close>

datatype pyval =
    PyNone
  | PyBool bool
  | PyStr string
  | PyObj nat
  | PyList "pyval list"
  | PyDict "(string \<times> pyval) list"

type_synonym pydict = "(string \<times> pyval) list"

text \<open>Truthiness, as \<^verbatim>\<open>if x:\<close> reads a value.\<close>

fun truthy :: "pyval \<Rightarrow> bool" where
  "truthy PyNone = False"
| "truthy (PyBool b) = b"
| "truthy (PyStr s) = (s \<noteq> [])"
| "truthy (PyObj n) = True"
| "truthy (PyList xs) = (xs \<noteq> [])"
| "truthy (PyDict d) = (d \<noteq> [])"

text \<open>
  A component class, as far as the source looks at it: its \<^verbatim>\<open>__name__\<close>, the
  \<^verbatim>\<open>issubclass\<close> tests the source makes, and \<^verbatim>\<open>hasattr(class_obj, "from_pretrained")\<close>.
\<close>

record class_obj =
  cls_name :: string
  sub_FromOriginalModelMixin :: bool
  sub_ModelMixin :: bool
  sub_SchedulerMixin :: bool
  sub_PreTrainedModel :: bool
  sub_PreTrainedTokenizer :: bool
  sub_nn_Module :: bool
  has_from_pretrained :: bool

text \<open>
  A pipeline class: \<^verbatim>\<open>__name__\<close>, \<^verbatim>\<open>config_name\<close>, \<^verbatim>\<open>_optional_components\<close>, and what
  \<^verbatim>\<open>_get_signature_types()\<close> returns (for each constructor parameter the tuple of its
  declared types).
\<close>

record pipeline_cls =
  p_name :: string
  p_config_name :: string
  p_optional_components :: "string list"
  p_signature_types :: "(string \<times> class_obj list) list"

text \<open>The \<^verbatim>\<open>ValueError\<close>s raised in this file, told apart by their message.\<close>

datatype value_error =
    OnlyOneOfConfigAndOriginalConfig
      \<comment> \<open>"Only one of `config` and `original_config` can be provided."\<close>
  | NeitherLocalPathNorRepoId string
      \<comment> \<open>"The provided pretrained_model_name_or_path "..." is neither a valid local path nor a valid repo id."\<close>
  | NoSupportedLoadingMethod string
      \<comment> \<open>"The component \<open>class_obj.__name__\<close> cannot be loaded as it does not seem to have a supported loading method."\<close>
  | PipelineExpectedButOnlyPassed string "string set" "string set"
      \<comment> \<open>"Pipeline \<open>pipeline_class\<close> expected \<open>expected_modules\<close>, but only \<open>passed_modules\<close> were passed."\<close>
  | CannotUnpack
      \<comment> \<open>a tuple assignment whose right-hand side has the wrong number of items\<close>
  | EmptyModuleName
      \<comment> \<open>\<^verbatim>\<open>importlib.import_module("")\<close>: "Empty module name"\<close>

datatype error =
    ValueError value_error
  | HFValidationError
      \<comment> \<open>raised by the decorator \<^verbatim>\<open>validate_hf_hub_args\<close> of line 215\<close>
  | LocalEntryNotFoundError
  | TypeError
  | IndexError
  | KeyError string
  | AttributeError string
  | ModuleNotFoundError string
  | UnboundLocalError string
  | OtherError string

datatype warning =
    FromPretrainedFallback pyval string pyval
      \<comment> \<open>component name, class name, inferred repository\<close>
  | LocalCacheMiss pyval
      \<comment> \<open>the inferred repository that is not in the cache\<close>

datatype callee =
    Function string
  | FunctionOnClass string class_obj
      \<comment> \<open>a function of another module whose first argument is a class\<close>
  | ClassMethod class_obj string
  | PipelineMethod pipeline_cls string
  | Construct pipeline_cls

datatype event =
    Deprecate string
  | Warning warning
  | Call callee "pyval list" pydict
      \<comment> \<open>a call to a collaborator: positional and keyword arguments\<close>

type_synonym 'a io = "event list \<times> (error + 'a)"

definition ret :: "'a \<Rightarrow> 'a io" where
  "ret a = ([], Inr a)"

definition raise :: "error \<Rightarrow> 'a io" where
  "raise e = ([], Inl e)"

definition emit :: "event \<Rightarrow> unit io" where
  "emit ev = ([ev], Inr ())"

definition lift :: "error + 'a \<Rightarrow> 'a io" where
  "lift r = ([], r)"

text \<open>Sequencing: the second step runs only if the first returned; traces concatenate.\<close>

definition io_bind :: "'a io \<Rightarrow> ('a \<Rightarrow> 'b io) \<Rightarrow> 'b io" where
  "io_bind m f =
     (case m of
        (t, Inl e) \<Rightarrow> (t, Inl e)
      | (t, Inr a) \<Rightarrow> (case f a of (t', r) \<Rightarrow> (t @ t', r)))"

subsection \<open>The collaborators\<close>

text \<open>
  \<^item> \<open>is_transformers_available\<close>: the function of that name;
  \<^item> \<open>transformers_ge_4_20\<close>: \<^verbatim>\<open>transformers_version >= version.parse("4.20.0")\<close>, read
    only when transformers is available (\<^verbatim>\<open>and\<close> short-circuits);
  \<^item> \<open>pipelines_attr\<close>: the attributes of the module \<^verbatim>\<open>diffusers.pipelines\<close>, each a
    namespace from class names to classes (\<^verbatim>\<open>hasattr\<close>/\<^verbatim>\<open>getattr\<close>);
  \<^item> \<open>import_module\<close>: \<^verbatim>\<open>importlib.import_module\<close>, likewise;
  \<^item> \<open>is_clip_model_in_single_file\<close>, \<open>isdir\<close> (\<^verbatim>\<open>os.path.isdir\<close>): read-only tests;
  \<^item> \<open>get_pipeline_class\<close>: \<^verbatim>\<open>_get_pipeline_class(cls, config=None)\<close>;
  \<^item> \<open>get_signature_keys\<close>: \<^verbatim>\<open>pipeline_class._get_signature_keys(cls)\<close>, the two sets in
    the order they are iterated;
  \<^item> \<open>validate_repo_id\<close>: the check of \<^verbatim>\<open>huggingface_hub\<close> that the decorator of
    \<^verbatim>\<open>from_single_file\<close> applies to a repository identity; it returns or raises;
  \<^item> \<open>ext\<close>: every other call that leaves this file (hub download, checkpoint reading,
    the components' loaders, the pipeline constructor); it returns or raises.
\<close>

record env =
  is_transformers_available :: bool
  transformers_ge_4_20 :: bool
  pipelines_attr :: "string \<Rightarrow> (string \<Rightarrow> class_obj option) option"
  import_module :: "string \<Rightarrow> (string \<Rightarrow> class_obj option) option"
  is_clip_model_in_single_file :: "class_obj \<Rightarrow> pyval \<Rightarrow> bool"
  isdir :: "string \<Rightarrow> bool"
  get_pipeline_class :: "pipeline_cls \<Rightarrow> error + pipeline_cls"
  get_signature_keys :: "pipeline_cls \<Rightarrow> pipeline_cls \<Rightarrow> string list \<times> string list"
  validate_repo_id :: "pyval \<Rightarrow> error + unit"
  ext :: "callee \<Rightarrow> pyval list \<Rightarrow> pydict \<Rightarrow> error + pyval"

definition call :: "env \<Rightarrow> callee \<Rightarrow> pyval list \<Rightarrow> pydict \<Rightarrow> pyval io" where
  "call env f args kw = ([Call f args kw], ext env f args kw)"

text \<open>
  A call \<^verbatim>\<open>f(a=.., b=.., **kwargs)\<close> whose \<^verbatim>\<open>kwargs\<close> holds one of the keywords written out
  raises \<open>TypeError\<close> ("got multiple values for keyword argument") where it stands: the
  callee is not entered.
\<close>

definition repeats_keyword :: "string list \<Rightarrow> pydict \<Rightarrow> bool" where
  "repeats_keyword names kwargs = (\<exists>k\<in>set names. map_of kwargs k \<noteq> None)"

subsection \<open>\<^verbatim>\<open>load_single_file_sub_model\<close>\<close>

text \<open>
  The class lookup at the head of the function, lines 55 to 61.
  \<^item> \<^verbatim>\<open>getattr(pipelines, library_name)\<close> and \<^verbatim>\<open>getattr(.., class_name)\<close> raise
    \<open>TypeError\<close> for a name that is not a string and \<open>AttributeError\<close> for a name that is
    not there;
  \<^item> \<^verbatim>\<open>importlib.import_module(library_name)\<close> starts with \<^verbatim>\<open>name.startswith(".")\<close>: a
    value that is not a string raises \<open>AttributeError\<close>; a name with a leading dot is a
    relative import without a package, \<open>TypeError\<close>; the empty name raises the
    \<^verbatim>\<open>ValueError\<close> "Empty module name"; an unknown module raises \<open>ModuleNotFoundError\<close>.
\<close>

definition getattr_class :: "(string \<Rightarrow> class_obj option) \<Rightarrow> pyval \<Rightarrow> error + class_obj" where
  "getattr_class namespace class_name =
     (case class_name of
        PyStr cn \<Rightarrow>
          (case namespace cn of
             None \<Rightarrow> Inl (AttributeError cn)
           | Some class_obj \<Rightarrow> Inr class_obj)
      | _ \<Rightarrow> Inl TypeError)"

definition lookup_class :: "env \<Rightarrow> bool \<Rightarrow> pyval \<Rightarrow> pyval \<Rightarrow> error + class_obj" where
  "lookup_class env is_pipeline_module library_name class_name =
     (if is_pipeline_module then
        (case library_name of
           PyStr lib \<Rightarrow>
             (case pipelines_attr env lib of
                None \<Rightarrow> Inl (AttributeError lib)
              | Some pipeline_module \<Rightarrow> getattr_class pipeline_module class_name)
         | _ \<Rightarrow> Inl TypeError)
      else
        (case library_name of
           PyStr lib \<Rightarrow>
             (if lib = [] then Inl (ValueError EmptyModuleName)
              else if hd lib = CHR ''.'' then Inl TypeError
              else
                (case import_module env lib of
                   None \<Rightarrow> Inl (ModuleNotFoundError lib)
                 | Some library \<Rightarrow> getattr_class library class_name))
         | _ \<Rightarrow> Inl (AttributeError ''startswith'')))"

text \<open>The six keywords that the call of the class's own \<^verbatim>\<open>from_single_file\<close> writes out.\<close>

abbreviation single_file_keywords :: "string list" where
  "single_file_keywords \<equiv>
     [''checkpoint'', ''original_config'', ''config'', ''subfolder'', ''torch_dtype'',
      ''local_files_only'']"

text \<open>The arguments of \<^verbatim>\<open>load_single_file_sub_model\<close>, by their names in the source.\<close>

record sub_model_args =
  a_library_name :: pyval
  a_class_name :: pyval
  a_pretrained_model_name_or_path :: pyval
  a_name :: pyval
  a_checkpoint :: pyval
  a_is_pipeline_module :: bool
  a_original_config :: pyval
  a_local_files_only :: pyval
  a_torch_dtype :: pyval
  a_use_safetensors :: pyval
  a_is_legacy_loading :: bool
  a_kwargs :: pydict

definition load_single_file_sub_model :: "env \<Rightarrow> sub_model_args \<Rightarrow> pyval io" where
  "load_single_file_sub_model env a =
     io_bind (lift (lookup_class env (a_is_pipeline_module a) (a_library_name a) (a_class_name a)))
       (\<lambda>class_obj.
     let is_transformers_model =
           (is_transformers_available env \<and> sub_PreTrainedModel class_obj
              \<and> transformers_ge_4_20 env);
         is_diffusers_single_file_model = sub_FromOriginalModelMixin class_obj;
         is_diffusers_model = sub_ModelMixin class_obj
     in
       if is_diffusers_single_file_model then
         (let pretrained_model_name_or_path =
                (if truthy (a_original_config a) then PyNone
                 else a_pretrained_model_name_or_path a)
          in
            if repeats_keyword single_file_keywords (a_kwargs a) then raise TypeError
            else
              call env (ClassMethod class_obj ''from_single_file'') []
                ([(''checkpoint'', a_checkpoint a),
                  (''original_config'', a_original_config a),
                  (''config'', pretrained_model_name_or_path),
                  (''subfolder'', a_name a),
                  (''torch_dtype'', a_torch_dtype a),
                  (''local_files_only'', a_local_files_only a)] @ a_kwargs a))
       else if is_transformers_model
                 \<and> is_clip_model_in_single_file env class_obj (a_checkpoint a) then
         call env (FunctionOnClass ''create_diffusers_clip_model_from_ldm'' class_obj) []
           [(''checkpoint'', a_checkpoint a),
            (''config'', a_pretrained_model_name_or_path a),
            (''subfolder'', a_name a),
            (''torch_dtype'', a_torch_dtype a),
            (''local_files_only'', a_local_files_only a),
            (''is_legacy_loading'', PyBool (a_is_legacy_loading a))]
       else if \<not> has_from_pretrained class_obj then
         raise (ValueError (NoSupportedLoadingMethod (cls_name class_obj)))
       else
         io_bind
           (if is_diffusers_model then
              emit (Warning (FromPretrainedFallback (a_name a) (cls_name class_obj)
                               (a_pretrained_model_name_or_path a)))
            else ret ())
           (\<lambda>_.
         let loading_kwargs =
               (if sub_nn_Module class_obj then [(''torch_dtype'', a_torch_dtype a)] else [])
         in call env (ClassMethod class_obj ''from_pretrained'') []
              ([(''pretrained_model_name_or_path'', a_pretrained_model_name_or_path a),
                (''subfolder'', a_name a),
                (''local_files_only'', a_local_files_only a),
                (''use_safetensors'', a_use_safetensors a)] @ loading_kwargs)))"

subsection \<open>\<^verbatim>\<open>_legacy_load_safety_checker\<close>\<close>

text \<open>
  Line 147 imports \<^verbatim>\<open>StableDiffusionSafetyChecker\<close> from the pipelines package, a module
  that imports transformers: without transformers the import raises
  \<open>ModuleNotFoundError\<close> and nothing is loaded.
\<close>

definition legacy_load_safety_checker :: "env \<Rightarrow> pyval \<Rightarrow> pyval \<Rightarrow> pydict io" where
  "legacy_load_safety_checker env local_files_only torch_dtype =
     (if \<not> is_transformers_available env then raise (ModuleNotFoundError ''transformers'')
      else
        io_bind
          (call env (Function ''AutoImageProcessor.from_pretrained'')
             [PyStr ''CompVis/stable-diffusion-safety-checker'']
             [(''local_files_only'', local_files_only)])
          (\<lambda>feature_extractor.
        io_bind
          (call env (Function ''StableDiffusionSafetyChecker.from_pretrained'')
             [PyStr ''CompVis/stable-diffusion-safety-checker'']
             [(''local_files_only'', local_files_only), (''torch_dtype'', torch_dtype)])
          (\<lambda>safety_checker.
        ret [(''safety_checker'', safety_checker), (''feature_extractor'', feature_extractor)])))"

subsection \<open>\<^verbatim>\<open>_map_component_types_to_config_dict\<close>\<close>

text \<open>
  The body of the loop, for a component whose first declared type is \<open>c\<close>: the
  \<^verbatim>\<open>if\<close>/\<^verbatim>\<open>elif\<close> chain in the source's order, the fourth branch included.
\<close>

definition component_entry :: "env \<Rightarrow> class_obj \<Rightarrow> pyval" where
  "component_entry env c =
     (let is_diffusers_model = sub_ModelMixin c;
          is_scheduler_enum = (cls_name c = ''KarrasDiffusionSchedulers'');
          is_scheduler = sub_SchedulerMixin c;
          is_transformers_model =
            (is_transformers_available env \<and> sub_PreTrainedModel c \<and> transformers_ge_4_20 env);
          is_transformers_tokenizer =
            (is_transformers_available env \<and> sub_PreTrainedTokenizer c
               \<and> transformers_ge_4_20 env)
      in
        if is_diffusers_model then PyList [PyStr ''diffusers'', PyStr (cls_name c)]
        else if is_scheduler_enum \<or> is_scheduler then
          (if is_scheduler_enum then PyList [PyStr ''diffusers'', PyStr ''DDIMScheduler'']
           else PyList [PyStr ''diffusers'', PyStr (cls_name c)])
        else if is_transformers_model \<or> is_transformers_tokenizer then
          PyList [PyStr ''transformers'', PyStr (cls_name c)]
        else if is_transformers_model \<and> cls_name c = ''StableDiffusionSafetyChecker'' then
          PyList [PyStr ''stable_diffusion'', PyStr (cls_name c)]
        else PyList [PyNone, PyNone])"

text \<open>
  The loop over \<^verbatim>\<open>component_types.items()\<close>. \<^verbatim>\<open>component_value[0]\<close> on an empty tuple
  raises \<open>IndexError\<close>.
\<close>

fun map_component_types_loop ::
  "env \<Rightarrow> (string \<times> class_obj list) list \<Rightarrow> pydict \<Rightarrow> error + pydict" where
  "map_component_types_loop env [] config_dict = Inr config_dict"
| "map_component_types_loop env ((component_name, component_value) # rest) config_dict =
     (case component_value of
        [] \<Rightarrow> Inl IndexError
      | c # _ \<Rightarrow>
          map_component_types_loop env rest
            (AList.update component_name (component_entry env c) config_dict))"

definition map_component_types_to_config_dict ::
  "env \<Rightarrow> (string \<times> class_obj list) list \<Rightarrow> error + pydict" where
  "map_component_types_to_config_dict env component_types =
     map_component_types_loop env (AList.delete ''self'' component_types) []"

subsection \<open>\<^verbatim>\<open>FromSingleFileMixin.from_single_file\<close>\<close>

text \<open>Dictionary and tuple operations the method uses, with the exceptions they raise.\<close>

definition pop :: "string \<Rightarrow> pyval \<Rightarrow> pydict \<Rightarrow> pyval \<times> pydict" where
  "pop k d kwargs =
     (case map_of kwargs k of None \<Rightarrow> (d, kwargs) | Some v \<Rightarrow> (v, AList.delete k kwargs))"

definition get_or :: "string \<Rightarrow> pyval \<Rightarrow> pydict \<Rightarrow> pyval" where
  "get_or k d kwargs = (case map_of kwargs k of None \<Rightarrow> d | Some v \<Rightarrow> v)"

text \<open>\<^verbatim>\<open>{k: d.pop(k) for k in ks if k in d and P k}\<close>: the popped entries and what is left.\<close>

fun pop_keys :: "(string \<Rightarrow> bool) \<Rightarrow> string list \<Rightarrow> pydict \<Rightarrow> pydict \<times> pydict" where
  "pop_keys P [] d = ([], d)"
| "pop_keys P (k # ks) d =
     (case map_of d k of
        Some v \<Rightarrow>
          (if P k then
             (case pop_keys P ks (AList.delete k d) of (got, d') \<Rightarrow> ((k, v) # got, d'))
           else pop_keys P ks d)
      | None \<Rightarrow> pop_keys P ks d)"

text \<open>\<^verbatim>\<open>d.update(e)\<close> and \<^verbatim>\<open>{**d, **e}\<close>: a known key keeps its place, a new one is appended.\<close>

definition dict_update :: "pydict \<Rightarrow> pydict \<Rightarrow> pydict" where
  "dict_update d e = fold (\<lambda>(k, v). AList.update k v) e d"

definition subscript :: "pyval \<Rightarrow> string \<Rightarrow> error + pyval" where
  "subscript x k =
     (case x of
        PyDict d \<Rightarrow> (case map_of d k of None \<Rightarrow> Inl (KeyError k) | Some v \<Rightarrow> Inr v)
      | _ \<Rightarrow> Inl TypeError)"

fun subscript0 :: "pyval \<Rightarrow> error + pyval" where
  "subscript0 (PyList (x # xs)) = Inr x"
| "subscript0 (PyList []) = Inl IndexError"
| "subscript0 (PyStr (c # cs)) = Inr (PyStr [c])"
| "subscript0 (PyStr []) = Inl IndexError"
| "subscript0 (PyDict d) = Inl (KeyError ''0'')"
| "subscript0 _ = Inl TypeError"

fun unpack2 :: "pyval \<Rightarrow> error + pyval \<times> pyval" where
  "unpack2 (PyList [x, y]) = Inr (x, y)"
| "unpack2 (PyList xs) = Inl (ValueError CannotUnpack)"
| "unpack2 (PyStr [c, d]) = Inr (PyStr [c], PyStr [d])"
| "unpack2 (PyStr s) = Inl (ValueError CannotUnpack)"
| "unpack2 (PyDict [(k, v), (k', v')]) = Inr (PyStr k, PyStr k')"
| "unpack2 (PyDict d) = Inl (ValueError CannotUnpack)"
| "unpack2 _ = Inl TypeError"

fun unpack3 :: "pyval \<Rightarrow> error + pyval \<times> pyval \<times> pyval" where
  "unpack3 (PyList [x, y, z]) = Inr (x, y, z)"
| "unpack3 (PyList xs) = Inl (ValueError CannotUnpack)"
| "unpack3 (PyStr [c, d, e]) = Inr (PyStr [c], PyStr [d], PyStr [e])"
| "unpack3 (PyStr s) = Inl (ValueError CannotUnpack)"
| "unpack3 (PyDict [(k, v), (k', v'), (k'', v'')]) = Inr (PyStr k, PyStr k', PyStr k'')"
| "unpack3 (PyDict d) = Inl (ValueError CannotUnpack)"
| "unpack3 _ = Inl TypeError"

text \<open>A value used as a dictionary (\<^verbatim>\<open>.pop\<close>, \<^verbatim>\<open>.items()\<close>, \<^verbatim>\<open>.update\<close>); anything else raises.\<close>

definition as_dict :: "pyval \<Rightarrow> error + pydict" where
  "as_dict x = (case x of PyDict d \<Rightarrow> Inr d | _ \<Rightarrow> Inl TypeError)"

text \<open>\<^verbatim>\<open>try: body  except LocalEntryNotFoundError: handler\<close>.\<close>

definition try_except_LocalEntryNotFoundError :: "'a io \<Rightarrow> 'a io \<Rightarrow> 'a io" where
  "try_except_LocalEntryNotFoundError body handler =
     (case body of
        (t, Inl LocalEntryNotFoundError) \<Rightarrow> (case handler of (t', r) \<Rightarrow> (t @ t', r))
      | (t, r) \<Rightarrow> (t, r))"

paragraph \<open>Lines 317 to 357: the recognised options are popped, the two config sources checked.\<close>

record arguments =
  g_config :: pyval
  g_original_config :: pyval
  g_resume_download :: pyval
  g_force_download :: pyval
  g_proxies :: pyval
  g_token :: pyval
  g_cache_dir :: pyval
  g_local_files_only :: pyval
  g_revision :: pyval
  g_torch_dtype :: pyval
  g_local_dir :: pyval
  g_use_safetensors :: pyval
  g_prediction_type :: pyval
  g_kwargs :: pydict

definition parse_arguments :: "pydict \<Rightarrow> arguments io" where
  "parse_arguments kwargs0 =
     (let (original_config_file, kwargs) = pop ''original_config_file'' PyNone kwargs0;
          (config, kwargs) = pop ''config'' PyNone kwargs;
          (original_config, kwargs) = pop ''original_config'' PyNone kwargs
      in
        io_bind
          (if original_config_file \<noteq> PyNone then emit (Deprecate ''original_config_file'')
           else ret ())
          (\<lambda>_.
        let original_config =
              (if original_config_file \<noteq> PyNone then original_config_file else original_config);
            (resume_download, kwargs) = pop ''resume_download'' (PyBool False) kwargs;
            (force_download, kwargs) = pop ''force_download'' (PyBool False) kwargs;
            (proxies, kwargs) = pop ''proxies'' PyNone kwargs;
            (token, kwargs) = pop ''token'' PyNone kwargs;
            (cache_dir, kwargs) = pop ''cache_dir'' PyNone kwargs;
            (local_files_only, kwargs) = pop ''local_files_only'' (PyBool False) kwargs;
            (revision, kwargs) = pop ''revision'' PyNone kwargs;
            (torch_dtype, kwargs) = pop ''torch_dtype'' PyNone kwargs;
            (local_dir, kwargs) = pop ''local_dir'' PyNone kwargs;
            (use_safetensors, kwargs) = pop ''use_safetensors'' PyNone kwargs
        in
          if config \<noteq> PyNone \<and> original_config \<noteq> PyNone then
            raise (ValueError OnlyOneOfConfigAndOriginalConfig)
          else
            io_bind
              (if get_or ''scaling_factor'' PyNone kwargs \<noteq> PyNone then
                 emit (Deprecate ''scaling_factor'')
               else ret ())
              (\<lambda>_.
            let prediction_type = get_or ''prediction_type'' PyNone kwargs in
            io_bind
              (if prediction_type \<noteq> PyNone then emit (Deprecate ''prediction_type'')
               else ret ())
              (\<lambda>_.
            ret \<lparr>g_config = config, g_original_config = original_config,
                 g_resume_download = resume_download, g_force_download = force_download,
                 g_proxies = proxies, g_token = token, g_cache_dir = cache_dir,
                 g_local_files_only = local_files_only, g_revision = revision,
                 g_torch_dtype = torch_dtype, g_local_dir = local_dir,
                 g_use_safetensors = use_safetensors, g_prediction_type = prediction_type,
                 g_kwargs = kwargs\<rparr>))))"

paragraph \<open>Lines 359 to 381: original config, pipeline class, checkpoint, default repository.\<close>

record acquired =
  q_original_config :: pyval
  q_pipeline_class :: pipeline_cls
  q_checkpoint :: pyval
  q_default_pretrained_model_name_or_path :: pyval

definition acquire :: "env \<Rightarrow> pipeline_cls \<Rightarrow> pyval \<Rightarrow> arguments \<Rightarrow> acquired io" where
  "acquire env cls pretrained_model_link_or_path g =
     io_bind
       (if g_original_config g \<noteq> PyNone then
          call env (Function ''fetch_original_config'') [g_original_config g]
            [(''local_files_only'', g_local_files_only g)]
        else ret (g_original_config g))
       (\<lambda>original_config.
     io_bind (lift (get_pipeline_class env cls))
       (\<lambda>pipeline_class.
     io_bind
       (call env (Function ''load_single_file_checkpoint'') [pretrained_model_link_or_path]
          [(''resume_download'', g_resume_download g),
           (''force_download'', g_force_download g),
           (''proxies'', g_proxies g),
           (''token'', g_token g),
           (''cache_dir'', g_cache_dir g),
           (''local_files_only'', g_local_files_only g),
           (''revision'', g_revision g),
           (''local_dir'', g_local_dir g)])
       (\<lambda>checkpoint.
     io_bind
       (if truthy (g_config g) then
          ret (PyDict [(''pretrained_model_name_or_path'', g_config g)])
        else call env (Function ''fetch_diffusers_config'') [checkpoint] [])
       (\<lambda>config.
     io_bind (lift (subscript config ''pretrained_model_name_or_path''))
       (\<lambda>default_pretrained_model_name_or_path.
     ret \<lparr>q_original_config = original_config, q_pipeline_class = pipeline_class,
          q_checkpoint = checkpoint,
          q_default_pretrained_model_name_or_path =
            default_pretrained_model_name_or_path\<rparr>)))))"

paragraph \<open>Lines 383 to 424: the manifest, and whether it was synthesised.\<close>

text \<open>
  The repository identity is used as a string (\<^verbatim>\<open>os.path.isdir\<close>, \<^verbatim>\<open>.count("/")\<close>). A
  boolean is an integer, which \<^verbatim>\<open>os.path.isdir\<close> takes for a file descriptor and answers
  \<^verbatim>\<open>False\<close>, so that \<^verbatim>\<open>.count\<close> raises \<open>AttributeError\<close>; for \<^verbatim>\<open>None\<close>, a list, a dictionary
  (and, in the model, an opaque object) \<^verbatim>\<open>os.path.isdir\<close> itself raises \<open>TypeError\<close>. The
  result is the manifest and \<^verbatim>\<open>is_legacy_loading\<close>.
\<close>

definition synthesize_manifest :: "env \<Rightarrow> pipeline_cls \<Rightarrow> acquired \<Rightarrow> (pyval \<times> bool) io" where
  "synthesize_manifest env cls q =
     (let pipeline_class = q_pipeline_class q in
      io_bind (emit (Warning (LocalCacheMiss (q_default_pretrained_model_name_or_path q))))
        (\<lambda>_.
      let component_types = p_signature_types pipeline_class;
          (expected_modules, optional_kwargs) = get_signature_keys env pipeline_class cls;
          component_types =
            filter (\<lambda>(k, v). k \<notin> set (p_optional_components pipeline_class)) component_types
      in
        io_bind (lift (map_component_types_to_config_dict env component_types))
          (\<lambda>config_dict.
        let config_dict = AList.update ''_class_name'' (PyStr (p_name pipeline_class)) config_dict
        in ret (PyDict config_dict, True))))"

text \<open>The body of the \<^verbatim>\<open>try\<close>: the manifest file from the hub (or its cache), parsed.\<close>

definition fetch_manifest ::
  "env \<Rightarrow> pipeline_cls \<Rightarrow> arguments \<Rightarrow> acquired \<Rightarrow> string \<Rightarrow> (pyval \<times> bool) io" where
  "fetch_manifest env cls g q default_pretrained_model_name_or_path =
     io_bind
       (call env (Function ''hf_hub_download'')
          [PyStr default_pretrained_model_name_or_path]
          [(''filename'', PyStr (p_config_name cls)),
           (''cache_dir'', g_cache_dir g),
           (''revision'', g_revision g),
           (''proxies'', g_proxies g),
           (''force_download'', g_force_download g),
           (''resume_download'', g_resume_download g),
           (''local_files_only'', g_local_files_only g),
           (''token'', g_token g)])
       (\<lambda>config_file.
     io_bind
       (call env (PipelineMethod (q_pipeline_class q) ''_dict_from_json_file'') [config_file] [])
       (\<lambda>config_dict. ret (config_dict, False)))"

definition resolve_manifest ::
  "env \<Rightarrow> pipeline_cls \<Rightarrow> arguments \<Rightarrow> acquired \<Rightarrow> (pyval \<times> bool) io" where
  "resolve_manifest env cls g q =
     (let pipeline_class = q_pipeline_class q in
      case q_default_pretrained_model_name_or_path q of
        PyStr default_pretrained_model_name_or_path \<Rightarrow>
          (if \<not> isdir env default_pretrained_model_name_or_path then
             (if count_list default_pretrained_model_name_or_path (CHR ''/'') > 1 then
                raise (ValueError (NeitherLocalPathNorRepoId default_pretrained_model_name_or_path))
              else
                try_except_LocalEntryNotFoundError
                  (fetch_manifest env cls g q default_pretrained_model_name_or_path)
                  (synthesize_manifest env cls q))
           else
             io_bind
               (call env (PipelineMethod pipeline_class ''load_config'')
                  [PyStr default_pretrained_model_name_or_path] [])
               (\<lambda>config_dict. ret (config_dict, False)))
      | PyBool b \<Rightarrow> raise (AttributeError ''count'')
      | _ \<Rightarrow> raise TypeError)"

paragraph \<open>Lines 427 to 450: caller-passed components, constructor options, the loading set.\<close>

text \<open>\<^verbatim>\<open>load_module(name, value)\<close>, the local function that removes \<^verbatim>\<open>null\<close> components.\<close>

definition load_module :: "pydict \<Rightarrow> string \<Rightarrow> pyval \<Rightarrow> error + bool" where
  "load_module passed_class_obj name v =
     (case subscript0 v of
        Inl e \<Rightarrow> Inl e
      | Inr v0 \<Rightarrow>
          Inr (if v0 = PyNone then False
               else if map_of passed_class_obj name = Some PyNone then False
               else True))"

text \<open>\<^verbatim>\<open>{k: v for k, v in init_dict.items() if load_module(k, v)}\<close>.\<close>

fun filter_load_module :: "pydict \<Rightarrow> pydict \<Rightarrow> error + pydict" where
  "filter_load_module passed_class_obj [] = Inr []"
| "filter_load_module passed_class_obj ((k, v) # rest) =
     (case load_module passed_class_obj k v of
        Inl e \<Rightarrow> Inl e
      | Inr keep \<Rightarrow>
          (case filter_load_module passed_class_obj rest of
             Inl e \<Rightarrow> Inl e
           | Inr rest' \<Rightarrow> Inr (if keep then (k, v) # rest' else rest')))"

text \<open>Lines 427 to 433: what the caller passed, and the manifest read against the constructor.\<close>

record extracted =
  x_kwargs :: pydict
  x_expected_modules :: "string list"
  x_optional_kwargs :: "string list"
  x_passed_class_obj :: pydict
  x_passed_pipe_kwargs :: pydict
  x_init_dict :: pydict

definition read_manifest ::
  "env \<Rightarrow> pipeline_cls \<Rightarrow> arguments \<Rightarrow> acquired \<Rightarrow> pyval \<Rightarrow> extracted io" where
  "read_manifest env cls g q config_dict =
     (let pipeline_class = q_pipeline_class q in
      io_bind (lift (as_dict config_dict))
        (\<lambda>config_dict.
      let config_dict = AList.delete ''_ignore_files'' config_dict;
          (expected_modules, optional_kwargs) = get_signature_keys env pipeline_class cls;
          (passed_class_obj, kwargs) = pop_keys (\<lambda>k. True) expected_modules (g_kwargs g);
          (passed_pipe_kwargs, kwargs) = pop_keys (\<lambda>k. True) optional_kwargs kwargs
      in
        io_bind
          (call env (PipelineMethod pipeline_class ''extract_init_dict'') [PyDict config_dict]
             kwargs)
          (\<lambda>extracted.
        io_bind (lift (unpack3 extracted))
          (\<lambda>(init_dict, unused_kwargs, hidden).
        io_bind (lift (as_dict init_dict))
          (\<lambda>init_dict.
        ret \<lparr>x_kwargs = kwargs, x_expected_modules = expected_modules,
             x_optional_kwargs = optional_kwargs, x_passed_class_obj = passed_class_obj,
             x_passed_pipe_kwargs = passed_pipe_kwargs, x_init_dict = init_dict\<rparr>)))))"

text \<open>Lines 437 to 450: the constructor options leave the manifest, the loading set is filtered.\<close>

record assembly =
  s_kwargs :: pydict
  s_expected_modules :: "string list"
  s_optional_kwargs :: "string list"
  s_passed_class_obj :: pydict
  s_init_kwargs :: pydict
  s_init_dict :: pydict
  s_is_legacy_loading :: bool

definition select_components :: "pipeline_cls \<Rightarrow> bool \<Rightarrow> extracted \<Rightarrow> assembly io" where
  "select_components cls is_legacy_loading x =
     (let (init_kwargs, init_dict) =
            pop_keys (\<lambda>k. k \<notin> set (p_optional_components cls)) (x_optional_kwargs x)
              (x_init_dict x);
          init_kwargs = dict_update init_kwargs (x_passed_pipe_kwargs x)
      in
        io_bind (lift (filter_load_module (x_passed_class_obj x) init_dict))
          (\<lambda>init_dict.
        ret \<lparr>s_kwargs = x_kwargs x, s_expected_modules = x_expected_modules x,
             s_optional_kwargs = x_optional_kwargs x,
             s_passed_class_obj = x_passed_class_obj x,
             s_init_kwargs = init_kwargs, s_init_dict = init_dict,
             s_is_legacy_loading = is_legacy_loading\<rparr>))"

paragraph \<open>Lines 452 to 476: the loading loop.\<close>

text \<open>
  \<^verbatim>\<open>hasattr(pipelines, library_name)\<close>; an attribute name that is not a string raises.
\<close>

definition hasattr_pipelines :: "env \<Rightarrow> pyval \<Rightarrow> error + bool" where
  "hasattr_pipelines env library_name =
     (case library_name of
        PyStr lib \<Rightarrow> Inr (pipelines_attr env lib \<noteq> None)
      | _ \<Rightarrow> Inl TypeError)"

text \<open>
  One iteration. The loop carries \<^verbatim>\<open>init_kwargs\<close> and the loop variable \<^verbatim>\<open>class_name\<close>,
  which is unbound (\<open>None\<close>) until the first iteration has unpacked its item. The call of
  \<^verbatim>\<open>load_single_file_sub_model\<close> (line 460) writes out twelve keywords and adds
  \<^verbatim>\<open>**kwargs\<close>: what is left of the caller's keywords must repeat none of them.
\<close>

definition load_component ::
  "env \<Rightarrow> arguments \<Rightarrow> acquired \<Rightarrow> assembly \<Rightarrow> string \<times> pyval \<Rightarrow> pydict \<times> pyval option
     \<Rightarrow> (pydict \<times> pyval option) io" where
  "load_component env g q s item acc =
     (let name = fst item; init_kwargs = fst acc in
      io_bind (lift (unpack2 (snd item)))
        (\<lambda>(library_name, class_name).
      io_bind (lift (hasattr_pipelines env library_name))
        (\<lambda>is_pipeline_module.
      io_bind
        (case map_of (s_passed_class_obj s) name of
           Some passed \<Rightarrow> ret passed
         | None \<Rightarrow>
             if repeats_keyword
                  [''checkpoint'', ''library_name'', ''class_name'',
                   ''pretrained_model_name_or_path'', ''is_pipeline_module'', ''pipelines'',
                   ''name'', ''torch_dtype'', ''original_config'', ''local_files_only'',
                   ''use_safetensors'', ''is_legacy_loading''] (s_kwargs s)
             then raise TypeError
             else
             load_single_file_sub_model env
               \<lparr>a_library_name = library_name, a_class_name = class_name,
                a_pretrained_model_name_or_path = q_default_pretrained_model_name_or_path q,
                a_name = PyStr name, a_checkpoint = q_checkpoint q,
                a_is_pipeline_module = is_pipeline_module,
                a_original_config = q_original_config q,
                a_local_files_only = g_local_files_only g,
                a_torch_dtype = g_torch_dtype g,
                a_use_safetensors = g_use_safetensors g,
                a_is_legacy_loading = s_is_legacy_loading s,
                a_kwargs = s_kwargs s\<rparr>)
        (\<lambda>loaded_sub_model.
      ret (AList.update name loaded_sub_model init_kwargs, Some class_name)))))"

fun load_components ::
  "env \<Rightarrow> arguments \<Rightarrow> acquired \<Rightarrow> assembly \<Rightarrow> pydict \<Rightarrow> pydict \<times> pyval option
     \<Rightarrow> (pydict \<times> pyval option) io" where
  "load_components env g q s [] acc = ret acc"
| "load_components env g q s (item # rest) acc =
     io_bind (load_component env g q s item acc) (load_components env g q s rest)"

paragraph \<open>Lines 478 to 489: the components still missing.\<close>

text \<open>
  \<^verbatim>\<open>missing_modules\<close> is a set; the model iterates it in the order of \<^verbatim>\<open>expected_modules\<close>.
\<close>

definition check_missing_modules ::
  "acquired \<Rightarrow> assembly \<Rightarrow> pydict \<Rightarrow> pydict io" where
  "check_missing_modules q s init_kwargs =
     (let pipeline_class = q_pipeline_class q;
          passed_class_obj = s_passed_class_obj s;
          missing_modules =
            filter (\<lambda>k. k \<notin> set (map fst init_kwargs)) (remdups (s_expected_modules s));
          passed_modules = map fst passed_class_obj;
          optional_modules = p_optional_components pipeline_class
      in
        if length missing_modules > 0
             \<and> set missing_modules \<subseteq> set (passed_modules @ optional_modules) then
          ret (fold (\<lambda>module kw. AList.update module (get_or module PyNone passed_class_obj) kw)
                 missing_modules init_kwargs)
        else if length missing_modules > 0 then
          (let passed_modules =
                 set (map fst init_kwargs @ map fst passed_class_obj)
                   - set (s_optional_kwargs s)
           in raise (ValueError (PipelineExpectedButOnlyPassed (p_name pipeline_class)
                       (set (s_expected_modules s)) passed_modules)))
        else ret init_kwargs)"

paragraph \<open>Lines 491 to 521: the two deprecated arguments.\<close>

definition legacy_safety_checker_path ::
  "env \<Rightarrow> arguments \<Rightarrow> pydict \<times> pydict \<Rightarrow> (pydict \<times> pydict) io" where
  "legacy_safety_checker_path env g st =
     (let (load_safety_checker, kwargs) = pop ''load_safety_checker'' PyNone (fst st);
          init_kwargs = snd st
      in
        if load_safety_checker \<noteq> PyNone then
          io_bind (emit (Deprecate ''load_safety_checker''))
            (\<lambda>_.
          io_bind (legacy_load_safety_checker env (g_local_files_only g) (g_torch_dtype g))
            (\<lambda>safety_checker_components.
          ret (kwargs, dict_update init_kwargs safety_checker_components)))
        else ret (kwargs, init_kwargs))"

definition legacy_scheduler_path ::
  "env \<Rightarrow> arguments \<Rightarrow> acquired \<Rightarrow> pyval option \<Rightarrow> pydict \<times> pydict \<Rightarrow> (pydict \<times> pydict) io" where
  "legacy_scheduler_path env g q class_name st =
     (let (scheduler_type, kwargs) = pop ''scheduler_type'' PyNone (fst st);
          init_kwargs = snd st
      in
        if scheduler_type \<noteq> PyNone then
          io_bind (emit (Deprecate ''scheduler_type''))
            (\<lambda>_.
          io_bind
            (case class_name of
               None \<Rightarrow> raise (UnboundLocalError ''class_name'')
             | Some cn \<Rightarrow> ret cn)
            (\<lambda>class_name.
          io_bind
            (call env (Function ''_legacy_load_scheduler_from_scheduler_type'') []
               [(''pipeline_class_name'', class_name),
                (''checkpoint'', q_checkpoint q),
                (''original_config'', q_original_config q),
                (''scheduler_type'', scheduler_type),
                (''prediction_type'', g_prediction_type g)])
            (\<lambda>scheduler_components.
          io_bind (lift (as_dict scheduler_components))
            (\<lambda>scheduler_components.
          ret (kwargs, dict_update init_kwargs scheduler_components)))))
        else ret (kwargs, init_kwargs))"

paragraph \<open>Lines 523 to 528: the constructor call and the cast.\<close>

definition construct_pipeline :: "env \<Rightarrow> arguments \<Rightarrow> acquired \<Rightarrow> pydict \<Rightarrow> pyval io" where
  "construct_pipeline env g q init_kwargs =
     io_bind (call env (Construct (q_pipeline_class q)) [] init_kwargs)
       (\<lambda>pipe.
     io_bind
       (if g_torch_dtype g \<noteq> PyNone then
          io_bind (call env (Function ''to'') [pipe] [(''dtype'', g_torch_dtype g)])
            (\<lambda>_. ret ())
        else ret ())
       (\<lambda>_. ret pipe))"

paragraph \<open>Lines 478 to 528 together: what follows the loop.\<close>

text \<open>\<open>loaded\<close> is what the loop leaves: \<^verbatim>\<open>init_kwargs\<close> and the loop variable \<^verbatim>\<open>class_name\<close>.\<close>

definition finish_pipeline ::
  "env \<Rightarrow> arguments \<Rightarrow> acquired \<Rightarrow> assembly \<Rightarrow> pydict \<times> pyval option \<Rightarrow> pyval io" where
  "finish_pipeline env g q s loaded =
     (let init_kwargs = fst loaded; class_name = snd loaded in
      io_bind (check_missing_modules q s init_kwargs)
        (\<lambda>init_kwargs.
      io_bind (legacy_safety_checker_path env g (s_kwargs s, init_kwargs))
        (\<lambda>st.
      io_bind (legacy_scheduler_path env g q class_name st)
        (\<lambda>st.
      construct_pipeline env g q (snd st)))))"

paragraph \<open>Lines 427 to 528 together: from the manifest to the pipeline.\<close>

definition assemble ::
  "env \<Rightarrow> pipeline_cls \<Rightarrow> arguments \<Rightarrow> acquired \<Rightarrow> pyval \<times> bool \<Rightarrow> pyval io" where
  "assemble env cls g q m =
     io_bind (read_manifest env cls g q (fst m))
       (\<lambda>x.
     io_bind (select_components cls (snd m) x)
       (\<lambda>s.
     io_bind (load_components env g q s (s_init_dict s) (s_init_kwargs s, None))
       (finish_pipeline env g q s)))"

paragraph \<open>Lines 317 to 528: the body of the method.\<close>

definition from_single_file_body :: "env \<Rightarrow> pipeline_cls \<Rightarrow> pyval \<Rightarrow> pydict \<Rightarrow> pyval io" where
  "from_single_file_body env cls pretrained_model_link_or_path kwargs =
     io_bind (parse_arguments kwargs)
       (\<lambda>g.
     io_bind (acquire env cls pretrained_model_link_or_path g)
       (\<lambda>q.
     io_bind (resolve_manifest env cls g q)
       (assemble env cls g q)))"

paragraph \<open>Lines 214 to 216: the method as decorated.\<close>

text \<open>
  \<^verbatim>\<open>@validate_hf_hub_args\<close> wraps the method. Before the body runs, the wrapper goes through
  the arguments by name (the positional ones are \<^verbatim>\<open>cls\<close> and
  \<^verbatim>\<open>pretrained_model_link_or_path\<close>, then \<^verbatim>\<open>kwargs.items()\<close>) and passes the value of each
  argument named \<^verbatim>\<open>repo_id\<close>, \<^verbatim>\<open>from_id\<close> or \<^verbatim>\<open>to_id\<close> to \<^verbatim>\<open>validate_repo_id\<close>, which raises
  for a value that is no repository identity. The method has no parameter \<^verbatim>\<open>token\<close>, so
  the wrapper does not rewrite \<^verbatim>\<open>use_auth_token\<close>: the body receives the arguments unchanged.
\<close>

fun validate_hf_hub_args :: "env \<Rightarrow> pydict \<Rightarrow> error + unit" where
  "validate_hf_hub_args env [] = Inr ()"
| "validate_hf_hub_args env ((arg_name, arg_value) # rest) =
     (if arg_name \<in> {''repo_id'', ''from_id'', ''to_id''} then
        (case validate_repo_id env arg_value of
           Inl e \<Rightarrow> Inl e
         | Inr _ \<Rightarrow> validate_hf_hub_args env rest)
      else validate_hf_hub_args env rest)"

definition from_single_file :: "env \<Rightarrow> pipeline_cls \<Rightarrow> pyval \<Rightarrow> pydict \<Rightarrow> pyval io" where
  "from_single_file env cls pretrained_model_link_or_path kwargs =
     io_bind (lift (validate_hf_hub_args env kwargs))
       (\<lambda>_. from_single_file_body env cls pretrained_model_link_or_path kwargs)"

subsection \<open>Reading a trace\<close>

text \<open>The collaborators called, in order.\<close>

fun callees :: "event list \<Rightarrow> callee list" where
  "callees [] = []"
| "callees (Call f args kw # es) = f # callees es"
| "callees (e # es) = callees es"








subsection \<open>A small world to run the code in\<close>

text \<open>
  Concrete classes, one per capability the source tells apart, and a pipeline class with
  two optional components. They serve to run the definitions on explicit inputs.
\<close>

definition unet_cls :: class_obj where
  "unet_cls = \<lparr>cls_name = ''UNet2DConditionModel'', sub_FromOriginalModelMixin = True,
     sub_ModelMixin = True, sub_SchedulerMixin = False, sub_PreTrainedModel = False,
     sub_PreTrainedTokenizer = False, sub_nn_Module = True, has_from_pretrained = True\<rparr>"

definition text_encoder_cls :: class_obj where
  "text_encoder_cls = \<lparr>cls_name = ''CLIPTextModel'', sub_FromOriginalModelMixin = False,
     sub_ModelMixin = False, sub_SchedulerMixin = False, sub_PreTrainedModel = True,
     sub_PreTrainedTokenizer = False, sub_nn_Module = True, has_from_pretrained = True\<rparr>"

definition tokenizer_cls :: class_obj where
  "tokenizer_cls = \<lparr>cls_name = ''CLIPTokenizer'', sub_FromOriginalModelMixin = False,
     sub_ModelMixin = False, sub_SchedulerMixin = False, sub_PreTrainedModel = False,
     sub_PreTrainedTokenizer = True, sub_nn_Module = False, has_from_pretrained = True\<rparr>"

definition scheduler_cls :: class_obj where
  "scheduler_cls = \<lparr>cls_name = ''PNDMScheduler'', sub_FromOriginalModelMixin = False,
     sub_ModelMixin = False, sub_SchedulerMixin = True, sub_PreTrainedModel = False,
     sub_PreTrainedTokenizer = False, sub_nn_Module = False, has_from_pretrained = True\<rparr>"

definition ddim_cls :: class_obj where
  "ddim_cls = \<lparr>cls_name = ''DDIMScheduler'', sub_FromOriginalModelMixin = False,
     sub_ModelMixin = False, sub_SchedulerMixin = True, sub_PreTrainedModel = False,
     sub_PreTrainedTokenizer = False, sub_nn_Module = False, has_from_pretrained = True\<rparr>"

definition scheduler_enum_cls :: class_obj where
  "scheduler_enum_cls = \<lparr>cls_name = ''KarrasDiffusionSchedulers'',
     sub_FromOriginalModelMixin = False,
     sub_ModelMixin = False, sub_SchedulerMixin = False, sub_PreTrainedModel = False,
     sub_PreTrainedTokenizer = False, sub_nn_Module = False, has_from_pretrained = False\<rparr>"

definition safety_checker_cls :: class_obj where
  "safety_checker_cls = \<lparr>cls_name = ''StableDiffusionSafetyChecker'',
     sub_FromOriginalModelMixin = False,
     sub_ModelMixin = False, sub_SchedulerMixin = False, sub_PreTrainedModel = True,
     sub_PreTrainedTokenizer = False, sub_nn_Module = True, has_from_pretrained = True\<rparr>"

definition image_processor_cls :: class_obj where
  "image_processor_cls = \<lparr>cls_name = ''CLIPImageProcessor'',
     sub_FromOriginalModelMixin = False,
     sub_ModelMixin = False, sub_SchedulerMixin = False, sub_PreTrainedModel = False,
     sub_PreTrainedTokenizer = False, sub_nn_Module = False, has_from_pretrained = True\<rparr>"

text \<open>A class with no loading method at all.\<close>

definition watermarker_cls :: class_obj where
  "watermarker_cls = \<lparr>cls_name = ''Watermarker'', sub_FromOriginalModelMixin = False,
     sub_ModelMixin = False, sub_SchedulerMixin = False, sub_PreTrainedModel = False,
     sub_PreTrainedTokenizer = False, sub_nn_Module = False, has_from_pretrained = False\<rparr>"

definition demo_pipeline :: pipeline_cls where
  "demo_pipeline = \<lparr>p_name = ''StableDiffusionPipeline'', p_config_name = ''model_index.json'',
     p_optional_components = [''safety_checker'', ''feature_extractor''],
     p_signature_types =
       [(''unet'', [unet_cls]), (''text_encoder'', [text_encoder_cls]),
        (''scheduler'', [scheduler_enum_cls]), (''safety_checker'', [safety_checker_cls]),
        (''feature_extractor'', [image_processor_cls])]\<rparr>"

definition demo_expected_modules :: "string list" where
  "demo_expected_modules =
     [''unet'', ''text_encoder'', ''scheduler'', ''safety_checker'', ''feature_extractor'']"

definition demo_optional_kwargs :: "string list" where
  "demo_optional_kwargs = [''requires_safety_checker'']"

text \<open>A manifest as a hub repository stores it (\<^verbatim>\<open>model_index.json\<close>).\<close>

definition demo_manifest :: pydict where
  "demo_manifest =
     [(''_class_name'', PyStr ''StableDiffusionPipeline''),
      (''_ignore_files'', PyList []),
      (''requires_safety_checker'', PyBool True),
      (''unet'', PyList [PyStr ''diffusers'', PyStr ''UNet2DConditionModel'']),
      (''text_encoder'', PyList [PyStr ''transformers'', PyStr ''CLIPTextModel'']),
      (''scheduler'', PyList [PyStr ''diffusers'', PyStr ''PNDMScheduler'']),
      (''safety_checker'', PyList [PyStr ''stable_diffusion'', PyStr ''StableDiffusionSafetyChecker'']),
      (''feature_extractor'', PyList [PyStr ''transformers'', PyStr ''CLIPImageProcessor''])]"

text \<open>
  The collaborators of the small world. \<open>hub\<close> is what \<^verbatim>\<open>hf_hub_download\<close> does, \<open>dirs\<close>
  the local directories, \<open>manifest\<close> the manifest found on the hub or on disk. The
  stand-in for \<^verbatim>\<open>extract_init_dict\<close> keeps the manifest entries that name a constructor
  parameter; the stand-in for \<^verbatim>\<open>validate_repo_id\<close> refuses what is not a string and a string
  with more than one \<^verbatim>\<open>/\<close>; a loader returns an object numbered by its strategy; the constructor returns
  the keyword arguments it received.
\<close>

definition demo_ext ::
  "error + pyval \<Rightarrow> pydict \<Rightarrow> callee \<Rightarrow> pyval list \<Rightarrow> pydict \<Rightarrow> error + pyval" where
  "demo_ext hub manifest f args kw =
     (case f of
        Function n \<Rightarrow>
          (if n = ''fetch_original_config'' then Inr (PyDict [(''model'', PyObj 1)])
           else if n = ''load_single_file_checkpoint'' then
             Inr (PyDict [(''model.diffusion_model.input_blocks.0.0.weight'', PyObj 2)])
           else if n = ''fetch_diffusers_config'' then
             Inr (PyDict [(''pretrained_model_name_or_path'',
                            PyStr ''runwayml/stable-diffusion-v1-5'')])
           else if n = ''hf_hub_download'' then hub
           else if n = ''AutoImageProcessor.from_pretrained'' then Inr (PyObj 20)
           else if n = ''StableDiffusionSafetyChecker.from_pretrained'' then Inr (PyObj 21)
           else if n = ''_legacy_load_scheduler_from_scheduler_type'' then
             Inr (PyDict [(''scheduler'', PyObj 22)])
           else if n = ''to'' then Inr PyNone
           else Inl (OtherError n))
      | FunctionOnClass n c \<Rightarrow> Inr (PyObj 11)
      | ClassMethod c m \<Rightarrow>
          (if m = ''from_single_file'' then Inr (PyObj 10) else Inr (PyObj 12))
      | PipelineMethod pc m \<Rightarrow>
          (if m = ''extract_init_dict'' then
             (case args of
                [PyDict config_dict] \<Rightarrow>
                  Inr (PyList
                    [PyDict (filter (\<lambda>(k, v). k \<in> set (demo_expected_modules @ demo_optional_kwargs))
                               config_dict),
                     PyDict kw, PyDict []])
              | _ \<Rightarrow> Inl TypeError)
           else Inr (PyDict manifest))
      | Construct pc \<Rightarrow> Inr (PyDict kw))"

definition demo_env :: "error + pyval \<Rightarrow> string list \<Rightarrow> pydict \<Rightarrow> env" where
  "demo_env hub dirs manifest =
     \<lparr>is_transformers_available = True,
      transformers_ge_4_20 = True,
      pipelines_attr =
        (\<lambda>lib. if lib = ''stable_diffusion'' then
                  Some (map_of [(''StableDiffusionSafetyChecker'', safety_checker_cls)])
                else None),
      import_module =
        (\<lambda>lib. if lib = ''diffusers'' then
                  Some (map_of [(''UNet2DConditionModel'', unet_cls),
                                (''PNDMScheduler'', scheduler_cls),
                                (''DDIMScheduler'', ddim_cls),
                                (''Watermarker'', watermarker_cls)])
                else if lib = ''transformers'' then
                  Some (map_of [(''CLIPTextModel'', text_encoder_cls),
                                (''CLIPTokenizer'', tokenizer_cls),
                                (''CLIPImageProcessor'', image_processor_cls)])
                else None),
      is_clip_model_in_single_file = (\<lambda>c checkpoint. cls_name c = ''CLIPTextModel''),
      isdir = (\<lambda>path. path \<in> set dirs),
      get_pipeline_class = (\<lambda>cls. Inr cls),
      get_signature_keys = (\<lambda>pipeline_class cls. (demo_expected_modules, demo_optional_kwargs)),
      validate_repo_id =
        (\<lambda>repo_id. case repo_id of
           PyStr s \<Rightarrow> if count_list s (CHR ''/'') > 1 then Inl HFValidationError else Inr ()
         | _ \<Rightarrow> Inl HFValidationError),
      ext = demo_ext hub manifest\<rparr>"

text \<open>Arguments for one call of \<^verbatim>\<open>load_single_file_sub_model\<close> in the small world.\<close>

definition demo_sub_model_args :: "string \<Rightarrow> string \<Rightarrow> string \<Rightarrow> sub_model_args" where
  "demo_sub_model_args library_name class_name name =
     \<lparr>a_library_name = PyStr library_name, a_class_name = PyStr class_name,
      a_pretrained_model_name_or_path = PyStr ''runwayml/stable-diffusion-v1-5'',
      a_name = PyStr name, a_checkpoint = PyDict [],
      a_is_pipeline_module = False, a_original_config = PyNone,
      a_local_files_only = PyBool False, a_torch_dtype = PyStr ''float16'',
      a_use_safetensors = PyNone, a_is_legacy_loading = False, a_kwargs = []\<rparr>"


section \<open>Properties\<close>

subsection \<open>Sequencing and dictionaries\<close>

text \<open>
  \<open>delete_id\<close> is conditional; on a chain of deletions the simplifier would try it at every
  level.
\<close>

declare AList.delete_id [simp del]

lemma io_bind_Inr [simp]: "io_bind (t, Inr a) f = (t @ fst (f a), snd (f a))"
  by (simp add: io_bind_def split: prod.splits)
lemma io_bind_Inl [simp]: "io_bind (t, Inl e) f = (t, Inl e)"
  by (simp add: io_bind_def)
lemma io_bind_ret [simp]: "io_bind (ret a) f = f a"
  by (simp add: ret_def)
lemma io_bind_raise [simp]: "io_bind (raise e) f = raise e"
  by (simp add: raise_def)
lemma io_bind_emit [simp]: "io_bind (emit ev) f = (ev # fst (f ()), snd (f ()))"
  by (simp add: emit_def)
lemma io_bind_lift_Inr [simp]: "io_bind (lift (Inr a)) f = f a"
  by (simp add: lift_def)
lemma io_bind_lift_Inl [simp]: "io_bind (lift (Inl e)) f = raise e"
  by (simp add: lift_def raise_def)
lemma fst_raise [simp]: "fst (raise e) = []" and snd_raise [simp]: "snd (raise e) = Inl e"
  by (simp_all add: raise_def)
lemma fst_ret [simp]: "fst (ret a) = []" and snd_ret [simp]: "snd (ret a) = Inr a"
  by (simp_all add: ret_def)
lemma fst_lift [simp]: "fst (lift r) = []" and snd_lift [simp]: "snd (lift r) = r"
  by (simp_all add: lift_def)
lemma fst_call [simp]: "fst (call env f args kw) = [Call f args kw]"
  and snd_call [simp]: "snd (call env f args kw) = ext env f args kw"
  by (simp_all add: call_def)
lemma fst_emit [simp]: "fst (emit ev) = [ev]" and snd_emit [simp]: "snd (emit ev) = Inr ()"
  by (simp_all add: emit_def)
lemma fst_io_bind: "fst (io_bind m f) = (case snd m of Inl e \<Rightarrow> fst m | Inr a \<Rightarrow> fst m @ fst (f a))"
  by (cases m) (auto split: sum.splits)
lemma snd_io_bind: "snd (io_bind m f) = (case snd m of Inl e \<Rightarrow> Inl e | Inr a \<Rightarrow> snd (f a))"
  by (cases m) (auto split: sum.splits)

lemma io_bind_eq_Inr:
  "io_bind m f = (tr, Inr b) \<longleftrightarrow> (\<exists>t1 a t2. m = (t1, Inr a) \<and> f a = (t2, Inr b) \<and> tr = t1 @ t2)"
proof (cases m)
  case (Pair t r)
  show ?thesis
  proof (cases r)
    case (Inl e)
    with Pair show ?thesis by simp
  next
    case (Inr a)
    with Pair show ?thesis by (cases "f a") auto
  qed
qed

lemma all_io_bind:
  assumes "\<forall>e\<in>set (fst m). P e" and "\<And>a. snd m = Inr a \<Longrightarrow> \<forall>e\<in>set (fst (f a)). P e"
  shows "\<forall>e\<in>set (fst (io_bind m f)). P e"
  using assms by (auto simp: fst_io_bind split: sum.splits)

lemma callees_append [simp]: "callees (xs @ ys) = callees xs @ callees ys"
  by (induction xs rule: callees.induct) auto

lemma pop_eq: "pop k d kw = (get_or k d kw, AList.delete k kw)"
proof (cases "map_of kw k")
  case None
  then have "k \<notin> fst ` set kw" by (simp add: map_of_eq_None_iff)
  with None show ?thesis by (simp add: pop_def get_or_def AList.delete_id)
next
  case (Some v)
  then show ?thesis by (simp add: pop_def get_or_def)
qed

lemma get_or_delete [simp]: "get_or k d (AList.delete k' kw) = (if k = k' then d else get_or k d kw)"
  by (simp add: get_or_def AList.delete_conv)


lemma fst_bind_when_emit:
  "fst (io_bind (if c then emit ev else ret ()) f) = (if c then [ev] else []) @ fst (f ())"
  and snd_bind_when_emit:
  "snd (io_bind (if c then emit ev else ret ()) f) = snd (f ())"
  by simp_all

lemma fst_if: "fst (if c then a else b) = (if c then fst a else fst b)"
  and snd_if: "snd (if c then a else b) = (if c then snd a else snd b)"
  by simp_all


lemma pair_eq_fst_snd: "x = (a, b) \<longleftrightarrow> fst x = a \<and> snd x = b"
  by auto

lemma call_eq_Inr: "call env f args kw = (t, Inr v) \<longleftrightarrow> t = [Call f args kw] \<and> ext env f args kw = Inr v"
  by (auto simp: call_def)

subsection \<open>The events of each stage\<close>

lemma parse_trace:
  "fst (parse_arguments kw) =
    (if get_or ''original_config_file'' PyNone kw \<noteq> PyNone then [Deprecate ''original_config_file''] else []) @
    (if get_or ''config'' PyNone kw \<noteq> PyNone \<and> (get_or ''original_config_file'' PyNone kw \<noteq> PyNone \<or> get_or ''original_config'' PyNone kw \<noteq> PyNone) then []
     else (if get_or ''scaling_factor'' PyNone kw \<noteq> PyNone then [Deprecate ''scaling_factor''] else []) @
          (if get_or ''prediction_type'' PyNone kw \<noteq> PyNone then [Deprecate ''prediction_type''] else []))"
  by (simp add: parse_arguments_def pop_eq Let_def)

lemma parse_events:
  "e \<in> set (fst (parse_arguments kw)) \<Longrightarrow>
   e = Deprecate ''original_config_file'' \<or> e = Deprecate ''scaling_factor'' \<or> e = Deprecate ''prediction_type''"
  by (auto simp: parse_trace split: if_splits)

lemma parse_result:
  "parse_arguments kw = (t, Inr g) \<Longrightarrow>
     g_kwargs g = fold AList.delete [''original_config_file'', ''config'', ''original_config'', ''resume_download'',
        ''force_download'', ''proxies'', ''token'', ''cache_dir'', ''local_files_only'', ''revision'',
        ''torch_dtype'', ''local_dir'', ''use_safetensors''] kw"
  by (auto simp: parse_arguments_def pop_eq Let_def prod_eq_iff snd_io_bind split: if_splits)


lemma acquire_events:
  "e \<in> set (fst (acquire env cls link g)) \<Longrightarrow>
   \<exists>args kw. e = Call (Function ''fetch_original_config'') args kw
     \<or> e = Call (Function ''load_single_file_checkpoint'') args kw
     \<or> e = Call (Function ''fetch_diffusers_config'') args kw"
  by (auto simp: acquire_def fst_io_bind split: if_splits sum.splits)




lemma snd_try_except:
  "snd (try_except_LocalEntryNotFoundError body handler) =
    (if snd body = Inl LocalEntryNotFoundError then snd handler else snd body)"
  by (cases body; cases handler) (auto simp: try_except_LocalEntryNotFoundError_def split: sum.splits error.splits)



lemma select_events [simp]: "fst (select_components cls b x) = []"
  by (auto simp: select_components_def Let_def fst_io_bind split: if_splits sum.splits prod.splits)

lemma check_events [simp]: "fst (check_missing_modules q s ik) = []"
  by (auto simp: check_missing_modules_def Let_def)





subsection \<open>The synthesised manifest\<close>

lemmas demo_defs = demo_env_def demo_ext_def demo_manifest_def demo_pipeline_def
  demo_expected_modules_def demo_optional_kwargs_def demo_sub_model_args_def
  unet_cls_def text_encoder_cls_def tokenizer_cls_def scheduler_cls_def ddim_cls_def
  scheduler_enum_cls_def safety_checker_cls_def image_processor_cls_def watermarker_cls_def

lemma component_entry_cases:
  "component_entry env c = PyList [PyStr ''diffusers'', PyStr (cls_name c)]
   \<or> component_entry env c = PyList [PyStr ''diffusers'', PyStr ''DDIMScheduler'']
   \<or> component_entry env c = PyList [PyStr ''transformers'', PyStr (cls_name c)]
   \<or> component_entry env c = PyList [PyNone, PyNone]"
  by (auto simp: component_entry_def Let_def)

lemma set_update_subset:
  "(n, v) \<in> set (AList.update k x al) \<Longrightarrow> (n, v) = (k, x) \<or> (n, v) \<in> set al"
  by (induction al) (auto split: if_splits)

lemma map_component_types_loop_entries:
  "map_component_types_loop env cts acc = Inr cfg \<Longrightarrow> (n, v) \<in> set cfg \<Longrightarrow>
   (n, v) \<in> set acc \<or> (\<exists>c. v = component_entry env c)"
proof (induction env cts acc rule: map_component_types_loop.induct)
  case (1 env config_dict)
  then show ?case by simp
next
  case (2 env component_name component_value rest config_dict)
  then show ?case
    by (cases component_value) (auto dest: set_update_subset)
qed



text \<open>
  C9. In \<^verbatim>\<open>_map_component_types_to_config_dict\<close> the branch that maps a class named
  \<^verbatim>\<open>StableDiffusionSafetyChecker\<close> to the library \<^verbatim>\<open>stable_diffusion\<close> is never taken: its
  guard implies the guard of the branch before it. Every entry of a synthesised manifest
  has the library \<^verbatim>\<open>diffusers\<close>, \<^verbatim>\<open>transformers\<close> or \<^verbatim>\<open>None\<close>, and no class at all is
  given the entry of the fourth branch.
\<close>

theorem synthesized_library_never_stable_diffusion:
  assumes "map_component_types_to_config_dict env component_types = Inr config_dict"
    and "(name, v) \<in> set config_dict"
  shows "(\<exists>class_name. v = PyList [PyStr ''diffusers'', PyStr class_name]
           \<or> v = PyList [PyStr ''transformers'', PyStr class_name]
           \<or> v = PyList [PyNone, PyNone])
         \<and> component_entry env c \<noteq> PyList [PyStr ''stable_diffusion'', PyStr (cls_name c)]"
proof -
  from assms obtain c' where "v = component_entry env c'"
    unfolding map_component_types_to_config_dict_def
    by (auto dest: map_component_types_loop_entries)
  with component_entry_cases [of env c'] component_entry_cases [of env c] show ?thesis by auto
qed

theorem synthesized_library_witness:
  "map_component_types_to_config_dict (demo_env (Inl LocalEntryNotFoundError) [] [])
       [(''self'', []), (''safety_checker'', [safety_checker_cls]),
        (''scheduler'', [scheduler_enum_cls]), (''feature_extractor'', [image_processor_cls])]
     = Inr [(''safety_checker'',
               PyList [PyStr ''transformers'', PyStr ''StableDiffusionSafetyChecker'']),
            (''scheduler'', PyList [PyStr ''diffusers'', PyStr ''DDIMScheduler'']),
            (''feature_extractor'', PyList [PyNone, PyNone])]
   \<and> component_entry (demo_env (Inl LocalEntryNotFoundError) [] []) safety_checker_cls
       = PyList [PyStr ''transformers'', PyStr ''StableDiffusionSafetyChecker'']"
proof -
  let ?env = "demo_env (Inl LocalEntryNotFoundError) [] []"
  let ?cfg = "[(''safety_checker'',
                  PyList [PyStr ''transformers'', PyStr ''StableDiffusionSafetyChecker'']),
               (''scheduler'', PyList [PyStr ''diffusers'', PyStr ''DDIMScheduler'']),
               (''feature_extractor'', PyList [PyNone, PyNone])]"
  have run: "map_component_types_to_config_dict ?env
       [(''self'', []), (''safety_checker'', [safety_checker_cls]),
        (''scheduler'', [scheduler_enum_cls]), (''feature_extractor'', [image_processor_cls])]
     = Inr ?cfg"
    by (simp add: map_component_types_to_config_dict_def component_entry_def demo_defs)
  have mem: "(''safety_checker'',
       PyList [PyStr ''transformers'', PyStr ''StableDiffusionSafetyChecker'']) \<in> set ?cfg"
    by simp
  have entry: "component_entry ?env safety_checker_cls
      = PyList [PyStr ''transformers'', PyStr ''StableDiffusionSafetyChecker'']"
    by (simp add: component_entry_def demo_defs)
  from synthesized_library_never_stable_diffusion [OF run mem, of safety_checker_cls] run entry
  show ?thesis by simp
qed

subsection \<open>The strategies of \<^verbatim>\<open>load_single_file_sub_model\<close>\<close>

text \<open>
  C4, as the code has it. Once the class is found, \<^verbatim>\<open>load_single_file_sub_model\<close> picks one
  loader in a fixed order: the class's own \<^verbatim>\<open>from_single_file\<close> if it is single-file
  loadable; else \<^verbatim>\<open>create_diffusers_clip_model_from_ldm\<close> if it is a transformers model
  whose weights are in the checkpoint; else its \<^verbatim>\<open>from_pretrained\<close>. The loader picked is
  the only collaborator called, and it is called once, with one exception: for a
  single-file loadable class whose leftover keyword arguments repeat one of the six
  keywords that the call writes out (\<^verbatim>\<open>config\<close> or \<^verbatim>\<open>subfolder\<close>, say), the call raises
  \<^verbatim>\<open>TypeError\<close> where it stands and no loader runs. A class with none of the three makes
  no call and raises the \<^verbatim>\<open>ValueError\<close> whose message holds the class name, and only the
  class name.
\<close>

theorem sub_model_strategy:
  assumes "lookup_class env (a_is_pipeline_module a) (a_library_name a) (a_class_name a) = Inr c"
  shows "callees (fst (load_single_file_sub_model env a)) =
     (if sub_FromOriginalModelMixin c then
        (if repeats_keyword single_file_keywords (a_kwargs a) then []
         else [ClassMethod c ''from_single_file''])
      else if is_transformers_available env \<and> sub_PreTrainedModel c \<and> transformers_ge_4_20 env
               \<and> is_clip_model_in_single_file env c (a_checkpoint a)
        then [FunctionOnClass ''create_diffusers_clip_model_from_ldm'' c]
      else if has_from_pretrained c then [ClassMethod c ''from_pretrained'']
      else [])
    \<and> (sub_FromOriginalModelMixin c \<and> repeats_keyword single_file_keywords (a_kwargs a)
        \<longrightarrow> load_single_file_sub_model env a = ([], Inl TypeError))
    \<and> (\<not> sub_FromOriginalModelMixin c
         \<and> \<not> (is_transformers_available env \<and> sub_PreTrainedModel c \<and> transformers_ge_4_20 env
               \<and> is_clip_model_in_single_file env c (a_checkpoint a))
         \<and> \<not> has_from_pretrained c
        \<longrightarrow> load_single_file_sub_model env a
               = ([], Inl (ValueError (NoSupportedLoadingMethod (cls_name c)))))"
  using assms by (simp add: load_single_file_sub_model_def Let_def raise_def)

theorem sub_model_strategy_witness:
  "lookup_class (demo_env (Inl LocalEntryNotFoundError) [] []) False
       (PyStr ''transformers'') (PyStr ''CLIPTextModel'') = Inr text_encoder_cls
   \<and> callees (fst (load_single_file_sub_model (demo_env (Inl LocalEntryNotFoundError) [] [])
         (demo_sub_model_args ''transformers'' ''CLIPTextModel'' ''text_encoder'')))
       = [FunctionOnClass ''create_diffusers_clip_model_from_ldm'' text_encoder_cls]"
proof -
  let ?env = "demo_env (Inl LocalEntryNotFoundError) [] []"
  let ?a = "demo_sub_model_args ''transformers'' ''CLIPTextModel'' ''text_encoder''"
  have found: "lookup_class ?env (a_is_pipeline_module ?a) (a_library_name ?a) (a_class_name ?a)
      = Inr text_encoder_cls"
    by (simp add: lookup_class_def getattr_class_def demo_defs)
  have found': "lookup_class ?env False (PyStr ''transformers'') (PyStr ''CLIPTextModel'')
      = Inr text_encoder_cls"
    by (simp add: lookup_class_def getattr_class_def demo_defs)
  have facts: "\<not> sub_FromOriginalModelMixin text_encoder_cls"
    "is_transformers_available ?env" "sub_PreTrainedModel text_encoder_cls"
    "transformers_ge_4_20 ?env"
    "is_clip_model_in_single_file ?env text_encoder_cls (a_checkpoint ?a)"
    by (simp_all add: demo_defs)
  from sub_model_strategy [OF found] facts found' show ?thesis by simp
qed

text \<open>
  C4 as stated fails in two places. Where it says that the error identifies the
  component by name and class: two components of one class that cannot be loaded raise
  the same error, which holds the class name and nothing of the component name. And
  where it says that exactly one strategy is invoked: a single-file loadable component
  loaded with a leftover keyword \<^verbatim>\<open>subfolder\<close> raises \<^verbatim>\<open>TypeError\<close> at the call, and no
  loader is entered.
\<close>

theorem unsupported_component_error_omits_name:
  "load_single_file_sub_model (demo_env (Inl LocalEntryNotFoundError) [] [])
       (demo_sub_model_args ''diffusers'' ''Watermarker'' ''watermarker'')
     = ([], Inl (ValueError (NoSupportedLoadingMethod ''Watermarker'')))
   \<and> load_single_file_sub_model (demo_env (Inl LocalEntryNotFoundError) [] [])
       (demo_sub_model_args ''diffusers'' ''Watermarker'' ''image_watermark'')
     = ([], Inl (ValueError (NoSupportedLoadingMethod ''Watermarker'')))
   \<and> load_single_file_sub_model (demo_env (Inl LocalEntryNotFoundError) [] [])
       ((demo_sub_model_args ''diffusers'' ''UNet2DConditionModel'' ''unet'')
          \<lparr>a_kwargs := [(''subfolder'', PyStr ''unet_ema'')]\<rparr>)
     = ([], Inl TypeError)"
  by (simp add: load_single_file_sub_model_def lookup_class_def getattr_class_def
        repeats_keyword_def demo_defs raise_def)

text \<open>
  C8. In the \<^verbatim>\<open>from_pretrained\<close> fallback the keyword \<^verbatim>\<open>torch_dtype\<close> is passed exactly when
  the class is a subclass of \<^verbatim>\<open>torch.nn.Module\<close>, and then with the caller's value; a
  scheduler or a tokenizer, which is no such subclass, receives no \<^verbatim>\<open>torch_dtype\<close>.
\<close>

theorem from_pretrained_dtype_iff_nn_module:
  assumes "lookup_class env (a_is_pipeline_module a) (a_library_name a) (a_class_name a) = Inr c"
    and "\<not> sub_FromOriginalModelMixin c"
    and "\<not> (is_transformers_available env \<and> sub_PreTrainedModel c \<and> transformers_ge_4_20 env
             \<and> is_clip_model_in_single_file env c (a_checkpoint a))"
    and "has_from_pretrained c"
  shows "\<exists>w kw. fst (load_single_file_sub_model env a)
             = w @ [Call (ClassMethod c ''from_pretrained'') [] kw]
           \<and> callees w = []
           \<and> map_of kw ''torch_dtype''
               = (if sub_nn_Module c then Some (a_torch_dtype a) else None)"
  using assms by (auto simp add: load_single_file_sub_model_def Let_def)

theorem from_pretrained_dtype_witness:
  "fst (load_single_file_sub_model (demo_env (Inl LocalEntryNotFoundError) [] [])
         (demo_sub_model_args ''transformers'' ''CLIPTokenizer'' ''tokenizer''))
     = [Call (ClassMethod tokenizer_cls ''from_pretrained'') []
          [(''pretrained_model_name_or_path'', PyStr ''runwayml/stable-diffusion-v1-5''),
           (''subfolder'', PyStr ''tokenizer''),
           (''local_files_only'', PyBool False),
           (''use_safetensors'', PyNone)]]
   \<and> (\<exists>w kw. fst (load_single_file_sub_model (demo_env (Inl LocalEntryNotFoundError) [] [])
                    (demo_sub_model_args ''transformers'' ''CLIPTokenizer'' ''tokenizer''))
               = w @ [Call (ClassMethod tokenizer_cls ''from_pretrained'') [] kw]
             \<and> callees w = [] \<and> map_of kw ''torch_dtype'' = None)"
proof -
  let ?env = "demo_env (Inl LocalEntryNotFoundError) [] []"
  let ?a = "demo_sub_model_args ''transformers'' ''CLIPTokenizer'' ''tokenizer''"
  have found: "lookup_class ?env (a_is_pipeline_module ?a) (a_library_name ?a) (a_class_name ?a)
      = Inr tokenizer_cls"
    by (simp add: lookup_class_def getattr_class_def demo_defs)
  have facts: "\<not> sub_FromOriginalModelMixin tokenizer_cls"
    "\<not> (is_transformers_available ?env \<and> sub_PreTrainedModel tokenizer_cls
         \<and> transformers_ge_4_20 ?env
         \<and> is_clip_model_in_single_file ?env tokenizer_cls (a_checkpoint ?a))"
    "has_from_pretrained tokenizer_cls" "\<not> sub_nn_Module tokenizer_cls"
    by (simp_all add: demo_defs)
  have run: "fst (load_single_file_sub_model ?env ?a)
     = [Call (ClassMethod tokenizer_cls ''from_pretrained'') []
          [(''pretrained_model_name_or_path'', PyStr ''runwayml/stable-diffusion-v1-5''),
           (''subfolder'', PyStr ''tokenizer''),
           (''local_files_only'', PyBool False),
           (''use_safetensors'', PyNone)]]"
    by (simp add: load_single_file_sub_model_def lookup_class_def getattr_class_def demo_defs)
  from from_pretrained_dtype_iff_nn_module [OF found facts(1) facts(2) facts(3)] facts(4) run
  show ?thesis by simp
qed

subsection \<open>The two config sources\<close>

lemma parse_arguments_both_configs:
  assumes "get_or ''config'' PyNone kwargs \<noteq> PyNone"
    and "get_or ''original_config_file'' PyNone kwargs \<noteq> PyNone
           \<or> get_or ''original_config'' PyNone kwargs \<noteq> PyNone"
  shows "parse_arguments kwargs =
     ((if get_or ''original_config_file'' PyNone kwargs \<noteq> PyNone
       then [Deprecate ''original_config_file''] else []),
      Inl (ValueError OnlyOneOfConfigAndOriginalConfig))"
  using assms by (auto simp add: parse_arguments_def pop_eq Let_def raise_def)

lemma validate_hf_hub_args_accepts:
  "\<forall>(k, v)\<in>set kwargs. k \<notin> {''repo_id'', ''from_id'', ''to_id''} \<Longrightarrow>
     validate_hf_hub_args env kwargs = Inr ()"
  by (induction kwargs) auto

lemma from_single_file_validated:
  "validate_hf_hub_args env kwargs = Inr () \<Longrightarrow>
     from_single_file env cls pretrained_model_link_or_path kwargs
       = from_single_file_body env cls pretrained_model_link_or_path kwargs"
  by (simp add: from_single_file_def)

text \<open>
  C1, as the code has it. If the caller gives \<^verbatim>\<open>config\<close> and also \<^verbatim>\<open>original_config\<close> or its
  deprecated alias \<^verbatim>\<open>original_config_file\<close> (each not \<^verbatim>\<open>None\<close>), then whatever the other
  arguments, the class and the collaborators are, the call fails before any collaborator
  is called. If the decorator \<^verbatim>\<open>validate_hf_hub_args\<close> refuses one of the keywords
  \<^verbatim>\<open>repo_id\<close>, \<^verbatim>\<open>from_id\<close>, \<^verbatim>\<open>to_id\<close>, its error is raised and the body does not run: the
  trace is empty. Otherwise \<^verbatim>\<open>from_single_file\<close> raises the \<^verbatim>\<open>ValueError\<close> "Only one of config
  and original_config can be provided", and the whole trace of the call is at most the
  deprecation notice of the alias.
\<close>

theorem both_configs_rejected_before_io:
  assumes "get_or ''config'' PyNone kwargs \<noteq> PyNone"
    and "get_or ''original_config_file'' PyNone kwargs \<noteq> PyNone
           \<or> get_or ''original_config'' PyNone kwargs \<noteq> PyNone"
  shows "from_single_file env cls pretrained_model_link_or_path kwargs =
     (case validate_hf_hub_args env kwargs of
        Inl e \<Rightarrow> ([], Inl e)
      | Inr _ \<Rightarrow>
          ((if get_or ''original_config_file'' PyNone kwargs \<noteq> PyNone
            then [Deprecate ''original_config_file''] else []),
           Inl (ValueError OnlyOneOfConfigAndOriginalConfig)))"
  unfolding from_single_file_def from_single_file_body_def parse_arguments_both_configs [OF assms]
  by (simp add: lift_def split: sum.splits)

theorem both_configs_rejected_witness:
  "from_single_file (demo_env (Inr (PyStr ''model_index.json'')) [] demo_manifest) demo_pipeline
       (PyStr ''v1-5-pruned-emaonly.safetensors'')
       [(''config'', PyStr ''runwayml/stable-diffusion-v1-5''),
        (''torch_dtype'', PyStr ''float16''),
        (''original_config_file'', PyStr ''v1-inference.yaml'')]
     = ([Deprecate ''original_config_file''], Inl (ValueError OnlyOneOfConfigAndOriginalConfig))"
proof -
  let ?kw = "[(''config'', PyStr ''runwayml/stable-diffusion-v1-5''),
        (''torch_dtype'', PyStr ''float16''),
        (''original_config_file'', PyStr ''v1-inference.yaml'')]"
  have c: "get_or ''config'' PyNone ?kw \<noteq> PyNone"
    by (simp add: get_or_def)
  have o: "get_or ''original_config_file'' PyNone ?kw \<noteq> PyNone
           \<or> get_or ''original_config'' PyNone ?kw \<noteq> PyNone"
    by (simp add: get_or_def)
  from both_configs_rejected_before_io [OF c o] o show ?thesis
    by (simp add: get_or_def)
qed

text \<open>
  C1 as stated fails for a call that, beside the two config sources, holds a keyword
  \<^verbatim>\<open>repo_id\<close> that is no repository identity: the decorator raises its
  \<^verbatim>\<open>HFValidationError\<close> before the body, and the error "Only one of config and
  original_config" is not raised.
\<close>

theorem invalid_repo_id_is_rejected_first:
  "from_single_file (demo_env (Inr (PyStr ''model_index.json'')) [] demo_manifest) demo_pipeline
       (PyStr ''v1-5-pruned-emaonly.safetensors'')
       [(''config'', PyStr ''runwayml/stable-diffusion-v1-5''),
        (''original_config'', PyStr ''v1-inference.yaml''),
        (''repo_id'', PyStr ''a/b/c'')]
     = ([], Inl HFValidationError)"
  by (simp add: from_single_file_def lift_def demo_defs)

subsection \<open>Running the method on explicit inputs\<close>

text \<open>One step of a run: the continuation is evaluated once.\<close>

lemma io_bind_run: "io_bind (t, Inr a) f = (case f a of (t', r) \<Rightarrow> (t @ t', r))"
  by (simp add: io_bind_def)

lemmas run_defs = from_single_file_def from_single_file_body_def assemble_def finish_pipeline_def parse_arguments_def acquire_def
  resolve_manifest_def fetch_manifest_def synthesize_manifest_def read_manifest_def
  select_components_def load_component_def check_missing_modules_def
  legacy_safety_checker_path_def legacy_scheduler_path_def construct_pipeline_def
  load_single_file_sub_model_def lookup_class_def getattr_class_def repeats_keyword_def
  legacy_load_safety_checker_def
  map_component_types_to_config_dict_def component_entry_def
  ret_def raise_def emit_def lift_def call_def pop_def get_or_def dict_update_def
  subscript_def as_dict_def try_except_LocalEntryNotFoundError_def load_module_def
  hasattr_pipelines_def

lemma callees_set: "f \<in> set (callees tr) \<longleftrightarrow> (\<exists>args kw. Call f args kw \<in> set tr)"
  by (induction tr rule: callees.induct) auto

subsection \<open>The repository identity\<close>

lemma acquire_loads_checkpoint:
  assumes "acquire env cls pretrained_model_link_or_path g = (t, Inr q)"
  shows "Call (Function ''load_single_file_checkpoint'') [pretrained_model_link_or_path]
           [(''resume_download'', g_resume_download g),
            (''force_download'', g_force_download g),
            (''proxies'', g_proxies g),
            (''token'', g_token g),
            (''cache_dir'', g_cache_dir g),
            (''local_files_only'', g_local_files_only g),
            (''revision'', g_revision g),
            (''local_dir'', g_local_dir g)] \<in> set t"
  using assms unfolding acquire_def
  by (auto simp: io_bind_eq_Inr call_eq_Inr ret_def lift_def)

text \<open>
  C5, as the code has it. When the decorator has accepted the keywords, the call has read
  its arguments and acquired the checkpoint, and the repository identity (the caller's
  \<^verbatim>\<open>config\<close> or the one inferred from the checkpoint) is a string that is not an existing
  local directory and holds two or more \<^verbatim>\<open>/\<close>, \<^verbatim>\<open>from_single_file\<close> raises the \<^verbatim>\<open>ValueError\<close>
  "neither a valid local path nor a valid repo id" with that string. Nothing happens
  between the acquisition and the error: the trace is that of the first two stages. The
  manifest has not been asked of the hub (\<^verbatim>\<open>hf_hub_download\<close> is not in the trace), but the
  error does not come before every access to the network: \<^verbatim>\<open>load_single_file_checkpoint\<close>
  has been called with the caller's link.
\<close>

theorem unresolvable_identity:
  assumes "validate_hf_hub_args env kwargs = Inr ()"
    and "parse_arguments kwargs = (t1, Inr g)"
    and "acquire env cls pretrained_model_link_or_path g = (t2, Inr q)"
    and "q_default_pretrained_model_name_or_path q = PyStr s"
    and "\<not> isdir env s"
    and "2 \<le> count_list s (CHR ''/'')"
  shows "from_single_file env cls pretrained_model_link_or_path kwargs
           = (t1 @ t2, Inl (ValueError (NeitherLocalPathNorRepoId s)))
         \<and> Function ''hf_hub_download'' \<notin> set (callees (t1 @ t2))
         \<and> Call (Function ''load_single_file_checkpoint'') [pretrained_model_link_or_path]
              [(''resume_download'', g_resume_download g),
               (''force_download'', g_force_download g),
               (''proxies'', g_proxies g),
               (''token'', g_token g),
               (''cache_dir'', g_cache_dir g),
               (''local_files_only'', g_local_files_only g),
               (''revision'', g_revision g),
               (''local_dir'', g_local_dir g)] \<in> set t2"
proof -
  have "resolve_manifest env cls g q = ([], Inl (ValueError (NeitherLocalPathNorRepoId s)))"
    using assms(4-6) by (simp add: resolve_manifest_def raise_def)
  then have run: "from_single_file env cls pretrained_model_link_or_path kwargs
           = (t1 @ t2, Inl (ValueError (NeitherLocalPathNorRepoId s)))"
    using assms(1-3) by (simp add: from_single_file_def from_single_file_body_def)
  have "Function ''hf_hub_download'' \<notin> set (callees t1)"
    using parse_events [of _ kwargs] assms(2) by (auto simp: callees_set)
  moreover have "Function ''hf_hub_download'' \<notin> set (callees t2)"
    using acquire_events [of _ env cls pretrained_model_link_or_path g] assms(3)
    by (auto simp: callees_set)
  ultimately show ?thesis using run acquire_loads_checkpoint [OF assms(3)] by simp
qed

theorem unresolvable_identity_witness:
  "from_single_file (demo_env (Inr (PyStr ''model_index.json'')) [] demo_manifest) demo_pipeline
       (PyStr ''v1-5-pruned-emaonly.safetensors'') [(''config'', PyStr ''hub/models/sd/v1-5'')]
     = ([Call (Function ''load_single_file_checkpoint'')
           [PyStr ''v1-5-pruned-emaonly.safetensors'']
           [(''resume_download'', PyBool False), (''force_download'', PyBool False),
            (''proxies'', PyNone), (''token'', PyNone), (''cache_dir'', PyNone),
            (''local_files_only'', PyBool False), (''revision'', PyNone),
            (''local_dir'', PyNone)]],
        Inl (ValueError (NeitherLocalPathNorRepoId ''hub/models/sd/v1-5'')))"
proof -
  let ?env = "demo_env (Inr (PyStr ''model_index.json'')) [] demo_manifest"
  let ?link = "PyStr ''v1-5-pruned-emaonly.safetensors''"
  let ?kw = "[(''config'', PyStr ''hub/models/sd/v1-5'')]"
  let ?p = "parse_arguments ?kw"
  let ?g = "projr (snd ?p)"
  let ?a = "acquire ?env demo_pipeline ?link ?g"
  let ?q = "projr (snd ?a)"
  have v: "validate_hf_hub_args ?env ?kw = Inr ()"
    by simp
  have p: "?p = ([], Inr ?g)"
    by (simp add: run_defs Let_def)
  have a: "?a = ([Call (Function ''load_single_file_checkpoint'')
           [PyStr ''v1-5-pruned-emaonly.safetensors'']
           [(''resume_download'', PyBool False), (''force_download'', PyBool False),
            (''proxies'', PyNone), (''token'', PyNone), (''cache_dir'', PyNone),
            (''local_files_only'', PyBool False), (''revision'', PyNone),
            (''local_dir'', PyNone)]], Inr ?q)"
    by (simp add: run_defs demo_defs Let_def io_bind_run del: io_bind_Inr)
  have d: "q_default_pretrained_model_name_or_path ?q = PyStr ''hub/models/sd/v1-5''"
    by (simp add: run_defs demo_defs Let_def io_bind_run del: io_bind_Inr)
  have n: "\<not> isdir ?env ''hub/models/sd/v1-5''"
    by (simp add: demo_defs)
  have c: "2 \<le> count_list ''hub/models/sd/v1-5'' (CHR ''/'')"
    by simp
  from unresolvable_identity [OF v p a d n c] show ?thesis by simp
qed

text \<open>
  C5 as stated fails where it says that the error comes before any access to the
  network: the identity is looked at on lines 383 to 389, after the checkpoint has been
  read on line 366. For a checkpoint given by its address on the hub,
  \<^verbatim>\<open>load_single_file_checkpoint\<close>, which downloads it, has been called when the error is
  raised.
\<close>

theorem checkpoint_is_acquired_before_identity_error:
  "from_single_file (demo_env (Inr (PyStr ''model_index.json'')) [] demo_manifest) demo_pipeline
       (PyStr ''https://huggingface.co/runwayml/stable-diffusion-v1-5/blob/main/v1-5-pruned-emaonly.safetensors'')
       [(''config'', PyStr ''hub/models/sd/v1-5'')]
     = ([Call (Function ''load_single_file_checkpoint'')
           [PyStr ''https://huggingface.co/runwayml/stable-diffusion-v1-5/blob/main/v1-5-pruned-emaonly.safetensors'']
           [(''resume_download'', PyBool False), (''force_download'', PyBool False),
            (''proxies'', PyNone), (''token'', PyNone), (''cache_dir'', PyNone),
            (''local_files_only'', PyBool False), (''revision'', PyNone),
            (''local_dir'', PyNone)]],
        Inl (ValueError (NeitherLocalPathNorRepoId ''hub/models/sd/v1-5'')))"
  by (simp add: run_defs demo_defs Let_def io_bind_run del: io_bind_Inr)

subsection \<open>Dictionaries\<close>

lemma map_of_update: "map_of (AList.update k v al) k' = (if k' = k then Some v else map_of al k')"
  by (simp add: AList.update_conv')


lemma dict_update_Nil [simp]: "dict_update d [] = d"
  by (simp add: dict_update_def)

lemma dict_update_Cons [simp]: "dict_update d ((k, v) # e) = dict_update (AList.update k v d) e"
  by (simp add: dict_update_def)

lemma map_of_dict_update_notin:
  "k \<notin> fst ` set e \<Longrightarrow> map_of (dict_update d e) k = map_of d k"
  by (induction e arbitrary: d) (auto simp: map_of_update)


lemma map_of_fold_update:
  "map_of (fold (\<lambda>m kw. AList.update m (f m) kw) ms ik) k
     = (if k \<in> set ms then Some (f k) else map_of ik k)"
  by (induction ms arbitrary: ik) (auto simp: map_of_update)

lemma fst_pop_keys_Cons:
  "fst (pop_keys P (k # ks) d) =
     (case map_of d k of
        Some v \<Rightarrow> if P k then (k, v) # fst (pop_keys P ks (AList.delete k d))
                  else fst (pop_keys P ks d)
      | None \<Rightarrow> fst (pop_keys P ks d))"
  by (simp split: option.splits prod.splits)

lemma snd_pop_keys_Cons:
  "snd (pop_keys P (k # ks) d) =
     (case map_of d k of
        Some v \<Rightarrow> if P k then snd (pop_keys P ks (AList.delete k d))
                  else snd (pop_keys P ks d)
      | None \<Rightarrow> snd (pop_keys P ks d))"
  by (simp split: option.splits prod.splits)

lemma map_of_fst_pop_keys:
  "map_of (fst (pop_keys P ks d)) k = (if k \<in> set ks \<and> P k then map_of d k else None)"
proof (induction ks arbitrary: d)
  case Nil
  then show ?case by simp
next
  case (Cons k' ks)
  show ?case
  proof (cases "map_of d k'")
    case None
    then show ?thesis
      by (auto simp del: pop_keys.simps simp: fst_pop_keys_Cons Cons.IH)
  next
    case (Some v')
    then show ?thesis
      by (auto simp del: pop_keys.simps simp: fst_pop_keys_Cons Cons.IH AList.delete_conv)
  qed
qed

lemma map_of_snd_pop_keys:
  "map_of (snd (pop_keys P ks d)) k = (if k \<in> set ks \<and> P k then None else map_of d k)"
proof (induction ks arbitrary: d)
  case Nil
  then show ?case by simp
next
  case (Cons k' ks)
  show ?case
  proof (cases "map_of d k'")
    case None
    then show ?thesis
      by (auto simp del: pop_keys.simps simp: snd_pop_keys_Cons Cons.IH)
  next
    case (Some v')
    then show ?thesis
      by (auto simp del: pop_keys.simps simp: snd_pop_keys_Cons Cons.IH AList.delete_conv)
  qed
qed



lemma pop_keys_rest_distinct:
  "distinct (map fst d) \<Longrightarrow> distinct (map fst (snd (pop_keys P ks d)))"
proof (induction ks arbitrary: d)
  case Nil
  then show ?case by simp
next
  case (Cons k' ks)
  show ?case
  proof (cases "map_of d k'")
    case None
    with Cons show ?thesis
      by (simp del: pop_keys.simps add: snd_pop_keys_Cons)
  next
    case (Some v')
    with Cons.prems Cons.IH [of d] Cons.IH [of "AList.delete k' d"] show ?thesis
      by (simp del: pop_keys.simps add: snd_pop_keys_Cons AList.distinct_delete)
  qed
qed

lemma get_or_None_iff: "get_or k PyNone d \<noteq> PyNone \<longleftrightarrow> (\<exists>v. map_of d k = Some v \<and> v \<noteq> PyNone)"
  by (auto simp: get_or_def split: option.splits)

lemma filter_load_module_Cons:
  "filter_load_module passed ((k, v) # rest) = Inr d' \<longleftrightarrow>
     (\<exists>keep rest'. load_module passed k v = Inr keep \<and> filter_load_module passed rest = Inr rest'
        \<and> d' = (if keep then (k, v) # rest' else rest'))"
  by (auto split: sum.splits)

lemma load_module_keep:
  "load_module passed k v = Inr keep \<Longrightarrow>
     keep \<longleftrightarrow> subscript0 v \<noteq> Inr PyNone \<and> map_of passed k \<noteq> Some PyNone"
  by (auto simp: load_module_def split: sum.splits if_splits)

lemma filter_load_module_entries:
  "filter_load_module passed d = Inr d' \<Longrightarrow> (k, v) \<in> set d' \<Longrightarrow>
     (k, v) \<in> set d \<and> subscript0 v \<noteq> Inr PyNone \<and> map_of passed k \<noteq> Some PyNone"
proof (induction d arbitrary: d')
  case Nil
  then show ?case by simp
next
  case (Cons p d)
  obtain k' v' where p: "p = (k', v')" by (cases p)
  from Cons.prems(1) obtain keep rest' where
    keep: "load_module passed k' v' = Inr keep"
    and rest: "filter_load_module passed d = Inr rest'"
    and d': "d' = (if keep then (k', v') # rest' else rest')"
    unfolding p filter_load_module_Cons by blast
  show ?case
  proof (cases "(k, v) \<in> set rest'")
    case True
    from Cons.IH [OF rest True] show ?thesis by simp
  next
    case False
    with Cons.prems(2) d' have "keep" and "(k, v) = (k', v')"
      by (auto split: if_splits)
    with load_module_keep [OF keep] show ?thesis by (simp add: p)
  qed
qed

lemma filter_load_module_sublist:
  "filter_load_module passed d = Inr d' \<Longrightarrow>
     d' = filter (\<lambda>(k, v). subscript0 v \<noteq> Inr PyNone \<and> map_of passed k \<noteq> Some PyNone) d"
proof (induction d arbitrary: d')
  case Nil
  then show ?case by simp
next
  case (Cons p d)
  obtain k' v' where p: "p = (k', v')" by (cases p)
  from Cons.prems(1) obtain keep rest' where
    keep: "load_module passed k' v' = Inr keep"
    and rest: "filter_load_module passed d = Inr rest'"
    and d': "d' = (if keep then (k', v') # rest' else rest')"
    unfolding p filter_load_module_Cons by blast
  from Cons.IH [OF rest] load_module_keep [OF keep] d' show ?case
    by (simp add: p)
qed

subsection \<open>The loading loop\<close>




lemma load_component_result:
  assumes "load_component env g q s item acc = (t, Inr acc')"
  shows "\<exists>lib cn v. unpack2 (snd item) = Inr (lib, cn)
           \<and> acc' = (AList.update (fst item) v (fst acc), Some cn)
           \<and> (\<forall>p. map_of (s_passed_class_obj s) (fst item) = Some p \<longrightarrow> v = p \<and> t = [])"
proof (cases "map_of (s_passed_class_obj s) (fst item)")
  case None
  with assms show ?thesis
    by (simp add: load_component_def Let_def io_bind_eq_Inr lift_def ret_def
             split: sum.splits prod.splits if_splits) blast
next
  case (Some p)
  with assms show ?thesis
    by (simp add: load_component_def Let_def io_bind_eq_Inr lift_def ret_def
             split: sum.splits prod.splits if_splits) blast
qed

lemma load_components_Cons:
  "load_components env g q s (item # items) acc = (t, Inr acc') \<longleftrightarrow>
     (\<exists>t1 mid t2. load_component env g q s item acc = (t1, Inr mid)
        \<and> load_components env g q s items mid = (t2, Inr acc') \<and> t = t1 @ t2)"
  by (simp add: io_bind_eq_Inr)




lemma load_components_class_name:
  "load_components env g q s items acc = (t, Inr acc') \<Longrightarrow> items \<noteq> [] \<Longrightarrow>
     \<exists>lib cn. unpack2 (snd (last items)) = Inr (lib, cn) \<and> snd acc' = Some cn"
proof (induction items arbitrary: acc t)
  case Nil
  then show ?case by simp
next
  case (Cons item items)
  from Cons.prems obtain t1 mid t2 where
    step: "load_component env g q s item acc = (t1, Inr mid)"
    and rest: "load_components env g q s items mid = (t2, Inr acc')"
    unfolding load_components_Cons by blast
  show ?case
  proof (cases "items = []")
    case True
    with rest have "acc' = mid" by (simp add: ret_def)
    with load_component_result [OF step] True show ?thesis by auto
  next
    case False
    with Cons.IH [OF rest] show ?thesis by simp
  qed
qed



subsection \<open>The missing modules\<close>

lemma check_missing_ok:
  assumes "check_missing_modules q s ik = (t, Inr ik')"
  shows "t = []"
    and "map_of ik' k = (if k \<in> fst ` set ik then map_of ik k
                         else if k \<in> set (s_expected_modules s)
                           then Some (get_or k PyNone (s_passed_class_obj s)) else None)"
    and "k \<in> set (s_expected_modules s) \<Longrightarrow> k \<notin> fst ` set ik \<Longrightarrow>
           k \<in> fst ` set (s_passed_class_obj s) \<or> k \<in> set (p_optional_components (q_pipeline_class q))"
proof -
  let ?missing = "filter (\<lambda>k. k \<notin> set (map fst ik)) (remdups (s_expected_modules s))"
  have none: "k \<notin> fst ` set ik \<Longrightarrow> map_of ik k = None" for k
    by (simp add: map_of_eq_None_iff)
  from assms show "t = []"
    by (auto simp: check_missing_modules_def Let_def ret_def raise_def split: if_splits)
  from assms have ik': "ik' = (if ?missing = [] then ik else
      fold (\<lambda>module kw. AList.update module (get_or module PyNone (s_passed_class_obj s)) kw)
        ?missing ik)"
    by (auto simp: check_missing_modules_def Let_def ret_def raise_def split: if_splits)
  show "map_of ik' k = (if k \<in> fst ` set ik then map_of ik k
                         else if k \<in> set (s_expected_modules s)
                           then Some (get_or k PyNone (s_passed_class_obj s)) else None)"
  proof (cases "?missing = []")
    case True
    then have "\<forall>x\<in>set (s_expected_modules s). x \<in> fst ` set ik"
      by (simp only: filter_empty_conv set_remdups set_map not_not)
    then have "k \<in> set (s_expected_modules s) \<Longrightarrow> k \<in> fst ` set ik"
      by blast
    with True ik' none [of k] show ?thesis by auto
  next
    case False
    with ik' none [of k] show ?thesis
      by (auto simp: map_of_fold_update)
  qed
  assume k: "k \<in> set (s_expected_modules s)" "k \<notin> fst ` set ik"
  then have in_missing: "k \<in> set ?missing" by auto
  then have ne: "length ?missing > 0" by (rule length_pos_if_in_set)
  have "set ?missing \<subseteq> set (map fst (s_passed_class_obj s)
      @ p_optional_components (q_pipeline_class q))"
  proof (rule ccontr)
    assume "\<not> ?thesis"
    with ne have "snd (check_missing_modules q s ik) \<noteq> Inr ik'"
      by (simp add: check_missing_modules_def Let_def raise_def)
    with assms show False by simp
  qed
  with in_missing show "k \<in> fst ` set (s_passed_class_obj s)
      \<or> k \<in> set (p_optional_components (q_pipeline_class q))"
    by auto
qed


subsection \<open>The deprecated paths and the constructor\<close>

lemma legacy_load_safety_checker_result:
  assumes "legacy_load_safety_checker env l d = (t, Inr comps)"
  shows "\<exists>fe sc. t = [Call (Function ''AutoImageProcessor.from_pretrained'')
                        [PyStr ''CompVis/stable-diffusion-safety-checker'']
                        [(''local_files_only'', l)],
                      Call (Function ''StableDiffusionSafetyChecker.from_pretrained'')
                        [PyStr ''CompVis/stable-diffusion-safety-checker'']
                        [(''local_files_only'', l), (''torch_dtype'', d)]]
           \<and> comps = [(''safety_checker'', sc), (''feature_extractor'', fe)]"
proof (cases "is_transformers_available env")
  case False
  with assms show ?thesis by (simp add: legacy_load_safety_checker_def raise_def)
next
  case True
  with assms show ?thesis
    unfolding legacy_load_safety_checker_def
    by (simp add: io_bind_eq_Inr call_eq_Inr ret_def) blast
qed

lemma safety_path_result:
  assumes "legacy_safety_checker_path env g st = (t, Inr st')"
  shows "fst st' = AList.delete ''load_safety_checker'' (fst st)
    \<and> (if get_or ''load_safety_checker'' PyNone (fst st) = PyNone then t = [] \<and> snd st' = snd st
       else \<exists>fe sc. t = [Deprecate ''load_safety_checker'',
                        Call (Function ''AutoImageProcessor.from_pretrained'')
                          [PyStr ''CompVis/stable-diffusion-safety-checker'']
                          [(''local_files_only'', g_local_files_only g)],
                        Call (Function ''StableDiffusionSafetyChecker.from_pretrained'')
                          [PyStr ''CompVis/stable-diffusion-safety-checker'']
                          [(''local_files_only'', g_local_files_only g),
                           (''torch_dtype'', g_torch_dtype g)]]
             \<and> snd st' = dict_update (snd st) [(''safety_checker'', sc), (''feature_extractor'', fe)])"
proof (cases "get_or ''load_safety_checker'' PyNone (fst st) = PyNone")
  case True
  with assms show ?thesis
    by (auto simp: legacy_safety_checker_path_def pop_eq Let_def ret_def)
next
  case False
  let ?rest = "io_bind (legacy_load_safety_checker env (g_local_files_only g) (g_torch_dtype g))
       (\<lambda>c. ret (AList.delete ''load_safety_checker'' (fst st), dict_update (snd st) c))"
  from assms False have "(Deprecate ''load_safety_checker'' # fst ?rest, snd ?rest) = (t, Inr st')"
    by (simp add: legacy_safety_checker_path_def pop_eq Let_def)
  then have t: "t = Deprecate ''load_safety_checker'' # fst ?rest" and "snd ?rest = Inr st'"
    by simp_all
  then have "?rest = (fst ?rest, Inr st')" by (simp add: pair_eq_fst_snd)
  then obtain comps where
    load: "legacy_load_safety_checker env (g_local_files_only g) (g_torch_dtype g)
             = (fst ?rest, Inr comps)"
    and st': "st' = (AList.delete ''load_safety_checker'' (fst st), dict_update (snd st) comps)"
    by (auto simp: io_bind_eq_Inr ret_def)
  from legacy_load_safety_checker_result [OF load] obtain fe sc where
    "fst ?rest = [Call (Function ''AutoImageProcessor.from_pretrained'')
                        [PyStr ''CompVis/stable-diffusion-safety-checker'']
                        [(''local_files_only'', g_local_files_only g)],
                      Call (Function ''StableDiffusionSafetyChecker.from_pretrained'')
                        [PyStr ''CompVis/stable-diffusion-safety-checker'']
                        [(''local_files_only'', g_local_files_only g),
                         (''torch_dtype'', g_torch_dtype g)]]"
    and "comps = [(''safety_checker'', sc), (''feature_extractor'', fe)]"
    by blast
  with t st' have "t = [Deprecate ''load_safety_checker'',
                        Call (Function ''AutoImageProcessor.from_pretrained'')
                          [PyStr ''CompVis/stable-diffusion-safety-checker'']
                          [(''local_files_only'', g_local_files_only g)],
                        Call (Function ''StableDiffusionSafetyChecker.from_pretrained'')
                          [PyStr ''CompVis/stable-diffusion-safety-checker'']
                          [(''local_files_only'', g_local_files_only g),
                           (''torch_dtype'', g_torch_dtype g)]]
             \<and> snd st' = dict_update (snd st) [(''safety_checker'', sc), (''feature_extractor'', fe)]"
    by simp
  then have "\<exists>fe sc. t = [Deprecate ''load_safety_checker'',
                        Call (Function ''AutoImageProcessor.from_pretrained'')
                          [PyStr ''CompVis/stable-diffusion-safety-checker'']
                          [(''local_files_only'', g_local_files_only g)],
                        Call (Function ''StableDiffusionSafetyChecker.from_pretrained'')
                          [PyStr ''CompVis/stable-diffusion-safety-checker'']
                          [(''local_files_only'', g_local_files_only g),
                           (''torch_dtype'', g_torch_dtype g)]]
             \<and> snd st' = dict_update (snd st) [(''safety_checker'', sc), (''feature_extractor'', fe)]"
    by blast
  with st' False show ?thesis
    by simp
qed




subsection \<open>What the stages hand on\<close>

lemma parse_kwargs:
  assumes "parse_arguments kw = (t, Inr g)"
  shows "map_of (g_kwargs g) k =
     (if k \<in> {''original_config_file'', ''config'', ''original_config'', ''resume_download'',
        ''force_download'', ''proxies'', ''token'', ''cache_dir'', ''local_files_only'', ''revision'',
        ''torch_dtype'', ''local_dir'', ''use_safetensors''} then None else map_of kw k)"
  unfolding parse_result [OF assms] by (simp add: AList.delete_conv)


lemma read_manifest_result:
  assumes "read_manifest env cls g q c = (t, Inr x)"
  shows "x_expected_modules x = fst (get_signature_keys env (q_pipeline_class q) cls)"
    and "x_optional_kwargs x = snd (get_signature_keys env (q_pipeline_class q) cls)"
    and "x_passed_class_obj x = fst (pop_keys (\<lambda>k. True) (x_expected_modules x) (g_kwargs g))"
    and "x_passed_pipe_kwargs x = fst (pop_keys (\<lambda>k. True) (x_optional_kwargs x)
           (snd (pop_keys (\<lambda>k. True) (x_expected_modules x) (g_kwargs g))))"
    and "x_kwargs x = snd (pop_keys (\<lambda>k. True) (x_optional_kwargs x)
           (snd (pop_keys (\<lambda>k. True) (x_expected_modules x) (g_kwargs g))))"
proof -
  obtain em ok where sk: "get_signature_keys env (q_pipeline_class q) cls = (em, ok)"
    by (cases "get_signature_keys env (q_pipeline_class q) cls")
  obtain pco kw1 where p1: "pop_keys (\<lambda>k. True) em (g_kwargs g) = (pco, kw1)"
    by (cases "pop_keys (\<lambda>k. True) em (g_kwargs g)")
  obtain ppk kw2 where p2: "pop_keys (\<lambda>k. True) ok kw1 = (ppk, kw2)"
    by (cases "pop_keys (\<lambda>k. True) ok kw1")
  from assms have "\<exists>d. x = \<lparr>x_kwargs = kw2, x_expected_modules = em, x_optional_kwargs = ok,
       x_passed_class_obj = pco, x_passed_pipe_kwargs = ppk, x_init_dict = d\<rparr>"
    by (auto simp: read_manifest_def Let_def sk p1 p2 io_bind_eq_Inr ret_def lift_def call_eq_Inr)
  then obtain d where x: "x = \<lparr>x_kwargs = kw2, x_expected_modules = em, x_optional_kwargs = ok,
       x_passed_class_obj = pco, x_passed_pipe_kwargs = ppk, x_init_dict = d\<rparr>" ..
  show "x_expected_modules x = fst (get_signature_keys env (q_pipeline_class q) cls)"
    and "x_optional_kwargs x = snd (get_signature_keys env (q_pipeline_class q) cls)"
    and "x_passed_class_obj x = fst (pop_keys (\<lambda>k. True) (x_expected_modules x) (g_kwargs g))"
    and "x_passed_pipe_kwargs x = fst (pop_keys (\<lambda>k. True) (x_optional_kwargs x)
           (snd (pop_keys (\<lambda>k. True) (x_expected_modules x) (g_kwargs g))))"
    and "x_kwargs x = snd (pop_keys (\<lambda>k. True) (x_optional_kwargs x)
           (snd (pop_keys (\<lambda>k. True) (x_expected_modules x) (g_kwargs g))))"
    by (simp_all add: x sk p1 p2)
qed


lemma read_manifest_kwargs_notin:
  "read_manifest env cls g q c = (t, Inr x) \<Longrightarrow>
     k \<notin> set (x_expected_modules x) \<Longrightarrow> k \<notin> set (x_optional_kwargs x) \<Longrightarrow>
     map_of (x_kwargs x) k = map_of (g_kwargs g) k"
  by (simp add: read_manifest_result(5) map_of_snd_pop_keys)



lemma select_result:
  assumes "select_components cls b x = (t, Inr s)"
  shows "t = []"
    and "s_kwargs s = x_kwargs x"
    and "s_expected_modules s = x_expected_modules x"
    and "s_optional_kwargs s = x_optional_kwargs x"
    and "s_passed_class_obj s = x_passed_class_obj x"
    and "s_is_legacy_loading s = b"
    and "s_init_kwargs s =
           dict_update (fst (pop_keys (\<lambda>k. k \<notin> set (p_optional_components cls))
                               (x_optional_kwargs x) (x_init_dict x)))
             (x_passed_pipe_kwargs x)"
    and "filter_load_module (x_passed_class_obj x)
           (snd (pop_keys (\<lambda>k. k \<notin> set (p_optional_components cls))
                   (x_optional_kwargs x) (x_init_dict x))) = Inr (s_init_dict s)"
proof -
  obtain ik d where p: "pop_keys (\<lambda>k. k \<notin> set (p_optional_components cls))
      (x_optional_kwargs x) (x_init_dict x) = (ik, d)"
    by (cases "pop_keys (\<lambda>k. k \<notin> set (p_optional_components cls))
      (x_optional_kwargs x) (x_init_dict x)")
  from assms have "t = [] \<and> (\<exists>d'. filter_load_module (x_passed_class_obj x) d = Inr d' \<and>
       s = \<lparr>s_kwargs = x_kwargs x, s_expected_modules = x_expected_modules x,
             s_optional_kwargs = x_optional_kwargs x,
             s_passed_class_obj = x_passed_class_obj x,
             s_init_kwargs = dict_update ik (x_passed_pipe_kwargs x), s_init_dict = d',
             s_is_legacy_loading = b\<rparr>)"
    by (auto simp: select_components_def Let_def p io_bind_eq_Inr ret_def lift_def)
  then obtain d' where t: "t = []"
    and f: "filter_load_module (x_passed_class_obj x) d = Inr d'"
    and s: "s = \<lparr>s_kwargs = x_kwargs x, s_expected_modules = x_expected_modules x,
             s_optional_kwargs = x_optional_kwargs x,
             s_passed_class_obj = x_passed_class_obj x,
             s_init_kwargs = dict_update ik (x_passed_pipe_kwargs x), s_init_dict = d',
             s_is_legacy_loading = b\<rparr>"
    by blast
  show "t = []"
    and "s_kwargs s = x_kwargs x"
    and "s_expected_modules s = x_expected_modules x"
    and "s_optional_kwargs s = x_optional_kwargs x"
    and "s_passed_class_obj s = x_passed_class_obj x"
    and "s_is_legacy_loading s = b"
    and "s_init_kwargs s =
           dict_update (fst (pop_keys (\<lambda>k. k \<notin> set (p_optional_components cls))
                               (x_optional_kwargs x) (x_init_dict x)))
             (x_passed_pipe_kwargs x)"
    and "filter_load_module (x_passed_class_obj x)
           (snd (pop_keys (\<lambda>k. k \<notin> set (p_optional_components cls))
                   (x_optional_kwargs x) (x_init_dict x))) = Inr (s_init_dict s)"
    by (simp_all add: t s p f)
qed



text \<open>A component passed as \<^verbatim>\<open>None\<close> does not reach the loading set either.\<close>

lemma select_drops_passed_None:
  assumes "select_components cls b x = (t, Inr s)"
    and "map_of (x_passed_class_obj x) name = Some PyNone"
  shows "name \<notin> fst ` set (s_init_dict s)"
proof
  assume "name \<in> fst ` set (s_init_dict s)"
  then obtain v' where v': "(name, v') \<in> set (s_init_dict s)" by auto
  from filter_load_module_entries [OF select_result(8) [OF assms(1)] v'] assms(2)
  show False by simp
qed

subsection \<open>The run, stage by stage\<close>









text \<open>Running the stages one after the other.\<close>

lemma from_single_file_body_stages:
  assumes "parse_arguments kwargs = (t1, Inr g)"
    and "acquire env cls link g = (t2, Inr q)"
    and "resolve_manifest env cls g q = (t3, Inr m)"
  shows "from_single_file_body env cls link kwargs
     = (t1 @ t2 @ t3 @ fst (assemble env cls g q m), snd (assemble env cls g q m))"
  using assms by (simp add: from_single_file_body_def)

lemma assemble_stages:
  assumes "read_manifest env cls g q (fst m) = (t4, Inr x)"
    and "select_components cls (snd m) x = (t5, Inr s)"
    and "load_components env g q s (s_init_dict s) (s_init_kwargs s, None) = (t6, Inr loaded)"
  shows "assemble env cls g q m
     = (t4 @ t6 @ fst (finish_pipeline env g q s loaded), snd (finish_pipeline env g q s loaded))"
  using assms select_result(1) [OF assms(2)] by (simp add: assemble_def)


lemma scheduler_path_trace:
  assumes "get_or ''scheduler_type'' PyNone (fst st) \<noteq> PyNone"
  shows "fst (legacy_scheduler_path env g q (Some class_name) st) =
     [Deprecate ''scheduler_type'',
      Call (Function ''_legacy_load_scheduler_from_scheduler_type'') []
        [(''pipeline_class_name'', class_name),
         (''checkpoint'', q_checkpoint q),
         (''original_config'', q_original_config q),
         (''scheduler_type'', get_or ''scheduler_type'' PyNone (fst st)),
         (''prediction_type'', g_prediction_type g)]]"
  using assms
  by (simp add: legacy_scheduler_path_def pop_eq Let_def fst_io_bind split: sum.splits)

lemma finish_stages:
  assumes "check_missing_modules q s (fst loaded) = (t7, Inr ik)"
    and "legacy_safety_checker_path env g (s_kwargs s, ik) = (t8, Inr st)"
  shows "\<exists>post. fst (finish_pipeline env g q s loaded)
            = t8 @ fst (legacy_scheduler_path env g q (snd loaded) st) @ post"
  using assms check_missing_ok(1) [OF assms(1)]
  by (simp add: finish_pipeline_def Let_def fst_io_bind split: sum.splits)




subsection \<open>Where the deprecated paths stand in a run\<close>
















lemma stage_value: "\<not> isl (snd p) \<Longrightarrow> p = (fst p, Inr (projr (snd p)))"
  by (cases p; cases "snd p") auto

subsection \<open>A component whose manifest entry is null\<close>




subsection \<open>A component passed by the caller\<close>




subsection \<open>The two deprecated arguments\<close>



subsection \<open>The class name handed to the legacy scheduler\<close>

text \<open>
  C10. Let the decorator accept the keywords and the call get through the loading loop,
  the missing-modules check and the safety-checker path, with a loading set that is not
  empty, and let the caller have passed a \<^verbatim>\<open>scheduler_type\<close> that is not \<^verbatim>\<open>None\<close>
  (\<^verbatim>\<open>scheduler_type\<close> being no parameter of the constructor). Then the next events of the
  run are the deprecation notice and the call of
  \<^verbatim>\<open>_legacy_load_scheduler_from_scheduler_type\<close>, whose argument \<^verbatim>\<open>pipeline_class_name\<close> is
  the class name in the last entry of the loading set: the loop variable \<^verbatim>\<open>class_name\<close>,
  not the name of the pipeline class.
\<close>

theorem legacy_scheduler_gets_last_component_class:
  assumes "parse_arguments kwargs = (t1, Inr g)"
    and "acquire env cls pretrained_model_link_or_path g = (t2, Inr q)"
    and "resolve_manifest env cls g q = (t3, Inr m)"
    and "read_manifest env cls g q (fst m) = (t4, Inr x)"
    and "select_components cls (snd m) x = (t5, Inr s)"
    and "load_components env g q s (s_init_dict s) (s_init_kwargs s, None) = (t6, Inr loaded)"
    and "check_missing_modules q s (fst loaded) = (t7, Inr ik)"
    and "legacy_safety_checker_path env g (s_kwargs s, ik) = (t8, Inr st)"
    and "s_init_dict s \<noteq> []"
    and "get_or ''scheduler_type'' PyNone kwargs \<noteq> PyNone"
    and "''scheduler_type'' \<notin> set (x_expected_modules x) \<union> set (x_optional_kwargs x)"
    and accepted: "validate_hf_hub_args env kwargs = Inr ()"
  shows "\<exists>library_name class_name scheduler_type post.
       unpack2 (snd (last (s_init_dict s))) = Inr (library_name, class_name)
     \<and> get_or ''scheduler_type'' PyNone kwargs = scheduler_type
     \<and> fst (from_single_file env cls pretrained_model_link_or_path kwargs)
         = (t1 @ t2 @ t3 @ t4 @ t6 @ t8)
           @ [Deprecate ''scheduler_type'',
              Call (Function ''_legacy_load_scheduler_from_scheduler_type'') []
                [(''pipeline_class_name'', class_name),
                 (''checkpoint'', q_checkpoint q),
                 (''original_config'', q_original_config q),
                 (''scheduler_type'', scheduler_type),
                 (''prediction_type'', g_prediction_type g)]]
           @ post"
proof -
  from load_components_class_name [OF assms(6,9)] obtain library_name class_name where
    last: "unpack2 (snd (last (s_init_dict s))) = Inr (library_name, class_name)"
    and cn: "snd loaded = Some class_name" by blast
  have "map_of (g_kwargs g) ''scheduler_type'' = map_of kwargs ''scheduler_type''"
    by (simp add: parse_kwargs [OF assms(1)])
  with assms(11) have "map_of (x_kwargs x) ''scheduler_type'' = map_of kwargs ''scheduler_type''"
    by (simp add: read_manifest_kwargs_notin [OF assms(4)])
  then have "get_or ''scheduler_type'' PyNone (s_kwargs s) = get_or ''scheduler_type'' PyNone kwargs"
    by (simp add: select_result(2) [OF assms(5)] get_or_def)
  moreover have "fst st = AList.delete ''load_safety_checker'' (s_kwargs s)"
    using safety_path_result [OF assms(8)] by simp
  ultimately have trig: "get_or ''scheduler_type'' PyNone (fst st) = get_or ''scheduler_type'' PyNone kwargs"
    by simp
  with assms(10) have "get_or ''scheduler_type'' PyNone (fst st) \<noteq> PyNone" by simp
  from scheduler_path_trace [OF this, where env=env and g=g and q=q and class_name=class_name]
    finish_stages [OF assms(7,8)] cn trig
  obtain post where "fst (finish_pipeline env g q s loaded) = t8 @
     [Deprecate ''scheduler_type'',
      Call (Function ''_legacy_load_scheduler_from_scheduler_type'') []
        [(''pipeline_class_name'', class_name),
         (''checkpoint'', q_checkpoint q),
         (''original_config'', q_original_config q),
         (''scheduler_type'', get_or ''scheduler_type'' PyNone kwargs),
         (''prediction_type'', g_prediction_type g)]] @ post"
    by auto
  then have "fst (from_single_file_body env cls pretrained_model_link_or_path kwargs)
         = (t1 @ t2 @ t3 @ t4 @ t6 @ t8)
           @ [Deprecate ''scheduler_type'',
              Call (Function ''_legacy_load_scheduler_from_scheduler_type'') []
                [(''pipeline_class_name'', class_name),
                 (''checkpoint'', q_checkpoint q),
                 (''original_config'', q_original_config q),
                 (''scheduler_type'', get_or ''scheduler_type'' PyNone kwargs),
                 (''prediction_type'', g_prediction_type g)]]
           @ post"
    by (simp add: from_single_file_body_stages [OF assms(1-3)] assemble_stages [OF assms(4-6)])
  with last show ?thesis unfolding from_single_file_validated [OF accepted] by blast
qed

theorem legacy_scheduler_class_witness:
  "Call (Function ''_legacy_load_scheduler_from_scheduler_type'') []
     [(''pipeline_class_name'', PyStr ''CLIPImageProcessor''),
      (''checkpoint'', PyDict [(''model.diffusion_model.input_blocks.0.0.weight'', PyObj 2)]),
      (''original_config'', PyNone),
      (''scheduler_type'', PyStr ''ddim''),
      (''prediction_type'', PyNone)]
   \<in> set (fst (from_single_file (demo_env (Inr (PyStr ''model_index.json'')) [] demo_manifest)
                 demo_pipeline (PyStr ''v1-5-pruned-emaonly.safetensors'')
                 [(''scheduler_type'', PyStr ''ddim'')]))"
proof -
  note [simp del] = io_bind_Inr
  note [simp] = run_defs demo_defs Let_def io_bind_run
  let ?env = "demo_env (Inr (PyStr ''model_index.json'')) [] demo_manifest"
  let ?link = "PyStr ''v1-5-pruned-emaonly.safetensors''"
  let ?kw = "[(''scheduler_type'', PyStr ''ddim'')]"
  have v: "validate_hf_hub_args ?env ?kw = Inr ()"
    by simp
  define g where "g = projr (snd (parse_arguments ?kw))"
  note g_val = g_def [ simplified]
  have p: "parse_arguments ?kw = (fst (parse_arguments ?kw), Inr g)"
    unfolding g_def by (rule stage_value) simp
  define q where "q = projr (snd (acquire ?env demo_pipeline ?link g))"
  note q_val = q_def [unfolded g_val, simplified]
  have a: "acquire ?env demo_pipeline ?link g = (fst (acquire ?env demo_pipeline ?link g), Inr q)"
    unfolding q_def by (rule stage_value) (simp add: g_val)
  define m where "m = projr (snd (resolve_manifest ?env demo_pipeline g q))"
  note m_val = m_def [unfolded g_val q_val, simplified]
  have r: "resolve_manifest ?env demo_pipeline g q = (fst (resolve_manifest ?env demo_pipeline g q), Inr m)"
    unfolding m_def by (rule stage_value) (simp add: g_val q_val)
  define x where "x = projr (snd (read_manifest ?env demo_pipeline g q (fst m)))"
  note x_val = x_def [unfolded g_val q_val m_val, simplified]
  have rd: "read_manifest ?env demo_pipeline g q (fst m) = (fst (read_manifest ?env demo_pipeline g q (fst m)), Inr x)"
    unfolding x_def by (rule stage_value) (simp add: g_val q_val m_val)
  define s where "s = projr (snd (select_components demo_pipeline (snd m) x))"
  note s_val = s_def [unfolded m_val x_val, simplified]
  have sl: "select_components demo_pipeline (snd m) x = (fst (select_components demo_pipeline (snd m) x), Inr s)"
    unfolding s_def by (rule stage_value) (simp add: m_val x_val)
  define loaded where "loaded = projr (snd (load_components ?env g q s (s_init_dict s) (s_init_kwargs s, None)))"
  note loaded_val = loaded_def [unfolded g_val q_val s_val, simplified]
  have lp: "load_components ?env g q s (s_init_dict s) (s_init_kwargs s, None) = (fst (load_components ?env g q s (s_init_dict s) (s_init_kwargs s, None)), Inr loaded)"
    unfolding loaded_def by (rule stage_value) (simp add: g_val q_val s_val)
  define ik where "ik = projr (snd (check_missing_modules q s (fst loaded)))"
  note ik_val = ik_def [unfolded q_val s_val loaded_val, simplified]
  have ck: "check_missing_modules q s (fst loaded) = (fst (check_missing_modules q s (fst loaded)), Inr ik)"
    unfolding ik_def by (rule stage_value) (simp add: q_val s_val loaded_val)
  define st where "st = projr (snd (legacy_safety_checker_path ?env g (s_kwargs s, ik)))"
  note st_val = st_def [unfolded g_val s_val ik_val, simplified]
  have sf: "legacy_safety_checker_path ?env g (s_kwargs s, ik) = (fst (legacy_safety_checker_path ?env g (s_kwargs s, ik)), Inr st)"
    unfolding st_def by (rule stage_value) (simp add: g_val s_val ik_val)
  have ne: "s_init_dict s \<noteq> []"
    by (simp add: s_val)
  have tg: "get_or ''scheduler_type'' PyNone ?kw \<noteq> PyNone"
    by simp
  have nx: "''scheduler_type'' \<notin> set (x_expected_modules x) \<union> set (x_optional_kwargs x)"
    by (simp add: x_val)
  from legacy_scheduler_gets_last_component_class [OF p a r rd sl lp ck sf ne tg nx v]
  show ?thesis by (auto simp: s_val q_val g_val)
qed
subsection \<open>The manifest that is not in the cache\<close>













end
